theory Spec2Isabelle
  imports Complex_Main
begin

section \<open>Textured cube sample: the data model\<close>

text \<open>
  The sample \<^verbatim>\<open>src/pages/samples/texturedCube.ts\<close> has one function \<^verbatim>\<open>init\<close>, which
  builds every GPU object and returns the closure \<^verbatim>\<open>frame\<close>. The model passes two pieces
  of state explicitly: the \<open>world\<close> (the JavaScript heap of typed arrays, the tables of
  objects the GPU device has created, and the queue of the device) and the \<open>renderer\<close>
  (the variables of \<^verbatim>\<open>init\<close> that \<^verbatim>\<open>frame\<close> captures).

  JavaScript numbers and the 32-bit floats of typed arrays and shaders are modelled as
  exact reals: rounding is not part of the model.
\<close>

subsection \<open>Typed arrays on the JavaScript heap\<close>

type_synonym addr = nat
type_synonym float32array = "real list"
type_synonym vec2 = "real \<times> real"
type_synonym vec3 = "real \<times> real \<times> real"
type_synonym vec4 = "real \<times> real \<times> real \<times> real"

record js_heap =
  cells :: "addr \<Rightarrow> float32array"
  next_addr :: addr

text \<open>\<^verbatim>\<open>new Float32Array(n)\<close>: a fresh array of zeros at an address never used before.\<close>

definition float32array_new :: "nat \<Rightarrow> js_heap \<Rightarrow> addr \<times> js_heap" where
  "float32array_new n h =
     (next_addr h,
      h\<lparr>cells := (cells h)(next_addr h := replicate n 0), next_addr := Suc (next_addr h)\<rparr>)"

definition byteLength :: "float32array \<Rightarrow> nat" where
  "byteLength a = 4 * length a"

subsection \<open>The gl-matrix operations the sample calls\<close>

text \<open>
  gl-matrix is an external package. Each operation below is the package's function of the
  same name: the first definition gives the sixteen numbers it leaves in \<^verbatim>\<open>out\<close> (column
  major, as the package stores them), the second is the call on heap addresses, which
  reads its arguments before it writes \<^verbatim>\<open>out\<close>, so that \<^verbatim>\<open>out\<close> may be one of them.
\<close>

definition EPSILON :: real where
  "EPSILON = 0.000001"

definition vec3_fromValues :: "real \<Rightarrow> real \<Rightarrow> real \<Rightarrow> vec3" where
  "vec3_fromValues x y z = (x, y, z)"

definition mat4_identity :: float32array where
  "mat4_identity = (replicate 16 0)[0 := 1, 5 := 1, 10 := 1, 15 := 1]"

definition mat4_create :: "js_heap \<Rightarrow> addr \<times> js_heap" where
  "mat4_create h =
     (let (out, h1) = float32array_new 16 h
      in (out, h1\<lparr>cells := (cells h1)(out := (cells h1 out)[0 := 1, 5 := 1, 10 := 1, 15 := 1])\<rparr>))"

text \<open>
  \<^verbatim>\<open>mat4.perspective\<close> has a second branch, for a far plane that is \<^verbatim>\<open>null\<close> or
  \<^verbatim>\<open>Infinity\<close>. The sample passes 100, and a real number is neither, so the branch for a
  finite far plane is the one modelled.
\<close>

definition perspective_values :: "real \<Rightarrow> real \<Rightarrow> real \<Rightarrow> real \<Rightarrow> float32array" where
  "perspective_values fovy aspect near far =
     (let f = 1 / tan (fovy / 2);
          nf = 1 / (near - far)
      in [f / aspect, 0, 0, 0,
          0, f, 0, 0,
          0, 0, (far + near) * nf, -1,
          0, 0, 2 * far * near * nf, 0])"

definition mat4_perspective :: "addr \<Rightarrow> real \<Rightarrow> real \<Rightarrow> real \<Rightarrow> real \<Rightarrow> js_heap \<Rightarrow> js_heap" where
  "mat4_perspective out fovy aspect near far h =
     h\<lparr>cells := (cells h)(out := perspective_values fovy aspect near far)\<rparr>"

definition translate_values :: "float32array \<Rightarrow> vec3 \<Rightarrow> float32array" where
  "translate_values a v =
     (case v of (x, y, z) \<Rightarrow>
        [a ! 0, a ! 1, a ! 2, a ! 3,
         a ! 4, a ! 5, a ! 6, a ! 7,
         a ! 8, a ! 9, a ! 10, a ! 11,
         a ! 0 * x + a ! 4 * y + a ! 8 * z + a ! 12,
         a ! 1 * x + a ! 5 * y + a ! 9 * z + a ! 13,
         a ! 2 * x + a ! 6 * y + a ! 10 * z + a ! 14,
         a ! 3 * x + a ! 7 * y + a ! 11 * z + a ! 15])"

definition mat4_translate :: "addr \<Rightarrow> addr \<Rightarrow> vec3 \<Rightarrow> js_heap \<Rightarrow> js_heap" where
  "mat4_translate out a v h = h\<lparr>cells := (cells h)(out := translate_values (cells h a) v)\<rparr>"

text \<open>
  \<^verbatim>\<open>mat4.rotate\<close> normalises the axis. When the axis is shorter than \<^verbatim>\<open>EPSILON\<close> it
  returns \<^verbatim>\<open>null\<close> and leaves \<^verbatim>\<open>out\<close> as it was: \<open>None\<close> here.
\<close>

definition hypot3 :: "real \<Rightarrow> real \<Rightarrow> real \<Rightarrow> real" where
  "hypot3 x y z = sqrt (x * x + y * y + z * z)"

definition rotate_values :: "float32array \<Rightarrow> real \<Rightarrow> vec3 \<Rightarrow> float32array option" where
  "rotate_values a rad axis =
     (case axis of (x0, y0, z0) \<Rightarrow>
        let len0 = hypot3 x0 y0 z0
        in if len0 < EPSILON then None
           else
             let len = 1 / len0;
                 x = x0 * len; y = y0 * len; z = z0 * len;
                 s = sin rad; c = cos rad; t = 1 - c;
                 b00 = x * x * t + c;     b01 = y * x * t + z * s; b02 = z * x * t - y * s;
                 b10 = x * y * t - z * s; b11 = y * y * t + c;     b12 = z * y * t + x * s;
                 b20 = x * z * t + y * s; b21 = y * z * t - x * s; b22 = z * z * t + c
             in Some
               [a ! 0 * b00 + a ! 4 * b01 + a ! 8 * b02,
                a ! 1 * b00 + a ! 5 * b01 + a ! 9 * b02,
                a ! 2 * b00 + a ! 6 * b01 + a ! 10 * b02,
                a ! 3 * b00 + a ! 7 * b01 + a ! 11 * b02,
                a ! 0 * b10 + a ! 4 * b11 + a ! 8 * b12,
                a ! 1 * b10 + a ! 5 * b11 + a ! 9 * b12,
                a ! 2 * b10 + a ! 6 * b11 + a ! 10 * b12,
                a ! 3 * b10 + a ! 7 * b11 + a ! 11 * b12,
                a ! 0 * b20 + a ! 4 * b21 + a ! 8 * b22,
                a ! 1 * b20 + a ! 5 * b21 + a ! 9 * b22,
                a ! 2 * b20 + a ! 6 * b21 + a ! 10 * b22,
                a ! 3 * b20 + a ! 7 * b21 + a ! 11 * b22,
                a ! 12, a ! 13, a ! 14, a ! 15])"

definition mat4_rotate :: "addr \<Rightarrow> addr \<Rightarrow> real \<Rightarrow> vec3 \<Rightarrow> js_heap \<Rightarrow> js_heap" where
  "mat4_rotate out a rad axis h =
     (case rotate_values (cells h a) rad axis of
        None \<Rightarrow> h
      | Some m \<Rightarrow> h\<lparr>cells := (cells h)(out := m)\<rparr>)"

definition multiply_values :: "float32array \<Rightarrow> float32array \<Rightarrow> float32array" where
  "multiply_values a b =
     [b ! 0 * a ! 0 + b ! 1 * a ! 4 + b ! 2 * a ! 8 + b ! 3 * a ! 12,
      b ! 0 * a ! 1 + b ! 1 * a ! 5 + b ! 2 * a ! 9 + b ! 3 * a ! 13,
      b ! 0 * a ! 2 + b ! 1 * a ! 6 + b ! 2 * a ! 10 + b ! 3 * a ! 14,
      b ! 0 * a ! 3 + b ! 1 * a ! 7 + b ! 2 * a ! 11 + b ! 3 * a ! 15,
      b ! 4 * a ! 0 + b ! 5 * a ! 4 + b ! 6 * a ! 8 + b ! 7 * a ! 12,
      b ! 4 * a ! 1 + b ! 5 * a ! 5 + b ! 6 * a ! 9 + b ! 7 * a ! 13,
      b ! 4 * a ! 2 + b ! 5 * a ! 6 + b ! 6 * a ! 10 + b ! 7 * a ! 14,
      b ! 4 * a ! 3 + b ! 5 * a ! 7 + b ! 6 * a ! 11 + b ! 7 * a ! 15,
      b ! 8 * a ! 0 + b ! 9 * a ! 4 + b ! 10 * a ! 8 + b ! 11 * a ! 12,
      b ! 8 * a ! 1 + b ! 9 * a ! 5 + b ! 10 * a ! 9 + b ! 11 * a ! 13,
      b ! 8 * a ! 2 + b ! 9 * a ! 6 + b ! 10 * a ! 10 + b ! 11 * a ! 14,
      b ! 8 * a ! 3 + b ! 9 * a ! 7 + b ! 10 * a ! 11 + b ! 11 * a ! 15,
      b ! 12 * a ! 0 + b ! 13 * a ! 4 + b ! 14 * a ! 8 + b ! 15 * a ! 12,
      b ! 12 * a ! 1 + b ! 13 * a ! 5 + b ! 14 * a ! 9 + b ! 15 * a ! 13,
      b ! 12 * a ! 2 + b ! 13 * a ! 6 + b ! 14 * a ! 10 + b ! 15 * a ! 14,
      b ! 12 * a ! 3 + b ! 13 * a ! 7 + b ! 14 * a ! 11 + b ! 15 * a ! 15]"

definition mat4_multiply :: "addr \<Rightarrow> addr \<Rightarrow> addr \<Rightarrow> js_heap \<Rightarrow> js_heap" where
  "mat4_multiply out a b h =
     h\<lparr>cells := (cells h)(out := multiply_values (cells h a) (cells h b))\<rparr>"

subsection \<open>GPU objects\<close>

text \<open>
  Every object the device creates is an entry of a table of the \<open>world\<close>; a handle is
  the index of the entry. Creating an object appends an entry, so that the length of a
  table counts the objects of that kind ever created. The API has no call in this sample
  that removes an entry.
\<close>

datatype buffer_usage_flag = VERTEX | UNIFORM | COPY_DST_BUFFER
datatype texture_usage_flag = RENDER_ATTACHMENT | SAMPLED | COPY_DST_TEXTURE
datatype texture_format = Bgra8unorm | Rgba8unorm | Depth24plus_stencil8
datatype vertex_format = Float32x2 | Float32x3 | Float32x4
datatype filter_mode = Nearest | Linear
datatype primitive_topology = Point_list | Line_list | Line_strip | Triangle_list | Triangle_strip
datatype cull_mode = Cull_none | Cull_front | Cull_back
datatype compare_function =
  Never | Less | Equal | Less_equal | Greater | Not_equal | Greater_equal | Always
datatype store_op = Store | Clear
datatype 'a load_value = Load | Clear_to 'a
datatype shader_lang = GLSL | WGSL
datatype shader_stage = Vertex_stage | Fragment_stage
datatype binding_type = Uniform_buffer_binding | Filtering_sampler_binding | Float_texture_binding

record gpu_buffer =
  buffer_size :: nat
  buffer_usage :: "buffer_usage_flag set"
  buffer_data :: "real list"

record gpu_texture =
  texture_width :: nat
  texture_height :: nat
  texture_format :: texture_format
  texture_usage :: "texture_usage_flag set"

text \<open>A texture view is of a texture of the device or of an image of the swap chain.\<close>

datatype texture_ref = Device_texture nat | Swap_chain_texture nat

record sampler_descriptor =
  magFilter :: filter_mode
  minFilter :: filter_mode

text \<open>
  A shader module is one of the four source strings of the file: \<^verbatim>\<open>glslShaders.vertex\<close>
  is \<open>(GLSL, Vertex_stage)\<close>, and so on. \<open>module_transform\<close> is the stage given to
  \<^verbatim>\<open>glslang.compileGLSL\<close> when the descriptor has a \<^verbatim>\<open>transform\<close>.
\<close>

record shader_module =
  module_lang :: shader_lang
  module_source :: shader_stage
  module_transform :: "shader_stage option"

record layout_entry =
  entry_binding :: nat
  entry_visibility :: shader_stage
  entry_type :: binding_type

record vertex_attribute =
  shaderLocation :: nat
  attribute_offset :: nat
  attribute_format :: vertex_format

record vertex_buffer_layout =
  arrayStride :: nat
  attributes :: "vertex_attribute list"

record render_pipeline =
  pipeline_layout :: nat
  vertex_module :: nat
  vertex_entryPoint :: string
  vertex_buffers :: "vertex_buffer_layout list"
  fragment_module :: nat
  fragment_entryPoint :: string
  fragment_targets :: "texture_format list"
  topology :: primitive_topology
  cullMode :: cull_mode
  depthWriteEnabled :: bool
  depthCompare :: compare_function
  depthStencil_format :: texture_format

datatype binding_resource = Buffer_resource nat | Sampler_resource nat | View_resource nat

record bind_group =
  bind_group_layout :: nat
  bind_group_entries :: "(nat \<times> binding_resource) list"

text \<open>
  The render pass descriptor. The colour attachment of the source has the two members
  \<^verbatim>\<open>attachment\<close> and \<^verbatim>\<open>loadValue\<close>; \<open>color_storeOp\<close> is \<open>None\<close> for the member
  \<^verbatim>\<open>storeOp\<close> it does not give, for which the WebGPU API takes its default \<^verbatim>\<open>'store'\<close>.
\<close>

record color_attachment =
  color_attachment_view :: "nat option"
  loadValue :: "vec4 load_value"
  color_storeOp :: "store_op option"

record depth_stencil_attachment =
  depth_attachment_view :: nat
  depthLoadValue :: "real load_value"
  depthStoreOp :: store_op
  stencilLoadValue :: "nat load_value"
  stencilStoreOp :: store_op

record render_pass_descriptor =
  colorAttachments :: "color_attachment list"
  depthStencilAttachment :: depth_stencil_attachment

definition effective_storeOp :: "store_op option \<Rightarrow> store_op" where
  "effective_storeOp s = (case s of None \<Rightarrow> Store | Some op \<Rightarrow> op)"

datatype render_command =
    SetPipeline nat
  | SetBindGroup nat nat
  | SetVertexBuffer nat nat
  | SetIndexBuffer nat
  | Draw nat nat nat nat
  | DrawIndexed nat nat nat nat nat

datatype encoder_command = RenderPass render_pass_descriptor "render_command list"

type_synonym command_buffer = "encoder_command list"

datatype queue_op =
    WriteBuffer nat nat nat
  | CopyImageBitmapToTexture nat nat nat nat
  | Submit "command_buffer list"

record world =
  heap :: js_heap
  buffers :: "gpu_buffer list"
  textures :: "gpu_texture list"
  texture_views :: "texture_ref list"
  samplers :: "sampler_descriptor list"
  shader_modules :: "shader_module list"
  bind_group_layouts :: "layout_entry list list"
  pipeline_layouts :: "nat list list"
  pipelines :: "render_pipeline list"
  bind_groups :: "bind_group list"
  command_encoders :: nat
  queue :: "queue_op list"
  validation_errors :: nat

subsection \<open>The WebGPU calls the sample makes\<close>

text \<open>\<^verbatim>\<open>adapter.requestDevice()\<close>: a device that has created nothing yet.\<close>

definition requestDevice :: "js_heap \<Rightarrow> world" where
  "requestDevice h =
     \<lparr>heap = h, buffers = [], textures = [], texture_views = [], samplers = [],
      shader_modules = [], bind_group_layouts = [], pipeline_layouts = [], pipelines = [],
      bind_groups = [], command_encoders = 0, queue = [], validation_errors = 0\<rparr>"

definition createBuffer :: "nat \<Rightarrow> buffer_usage_flag set \<Rightarrow> world \<Rightarrow> nat \<times> world" where
  "createBuffer sz usage w =
     (length (buffers w),
      w\<lparr>buffers := buffers w @
           [\<lparr>buffer_size = sz, buffer_usage = usage, buffer_data = replicate (sz div 4) 0\<rparr>]\<rparr>)"

text \<open>
  \<^verbatim>\<open>new Float32Array(buffer.getMappedRange()).set(src)\<close> followed by \<^verbatim>\<open>unmap()\<close>: the
  numbers of \<open>src\<close> replace the first \<open>length src\<close> numbers of the buffer.
\<close>

definition set_mapped_range :: "nat \<Rightarrow> float32array \<Rightarrow> world \<Rightarrow> world" where
  "set_mapped_range b src w =
     w\<lparr>buffers := (buffers w)
          [b := (buffers w ! b)\<lparr>buffer_data := src @ drop (length src) (buffer_data (buffers w ! b))\<rparr>]\<rparr>"

definition createTexture ::
  "nat \<Rightarrow> nat \<Rightarrow> texture_format \<Rightarrow> texture_usage_flag set \<Rightarrow> world \<Rightarrow> nat \<times> world" where
  "createTexture wd ht fmt usage w =
     (length (textures w),
      w\<lparr>textures := textures w @
           [\<lparr>texture_width = wd, texture_height = ht, texture_format = fmt,
             texture_usage = usage\<rparr>]\<rparr>)"

definition createView :: "texture_ref \<Rightarrow> world \<Rightarrow> nat \<times> world" where
  "createView t w = (length (texture_views w), w\<lparr>texture_views := texture_views w @ [t]\<rparr>)"

definition createSampler :: "sampler_descriptor \<Rightarrow> world \<Rightarrow> nat \<times> world" where
  "createSampler d w = (length (samplers w), w\<lparr>samplers := samplers w @ [d]\<rparr>)"

definition createShaderModule :: "shader_module \<Rightarrow> world \<Rightarrow> nat \<times> world" where
  "createShaderModule m w =
     (length (shader_modules w), w\<lparr>shader_modules := shader_modules w @ [m]\<rparr>)"

definition createBindGroupLayout :: "layout_entry list \<Rightarrow> world \<Rightarrow> nat \<times> world" where
  "createBindGroupLayout es w =
     (length (bind_group_layouts w), w\<lparr>bind_group_layouts := bind_group_layouts w @ [es]\<rparr>)"

definition createPipelineLayout :: "nat list \<Rightarrow> world \<Rightarrow> nat \<times> world" where
  "createPipelineLayout ls w =
     (length (pipeline_layouts w), w\<lparr>pipeline_layouts := pipeline_layouts w @ [ls]\<rparr>)"

definition createRenderPipeline :: "render_pipeline \<Rightarrow> world \<Rightarrow> nat \<times> world" where
  "createRenderPipeline d w = (length (pipelines w), w\<lparr>pipelines := pipelines w @ [d]\<rparr>)"

definition getBindGroupLayout :: "nat \<Rightarrow> nat \<Rightarrow> world \<Rightarrow> nat" where
  "getBindGroupLayout p i w = pipeline_layouts w ! pipeline_layout (pipelines w ! p) ! i"

definition createBindGroup :: "bind_group \<Rightarrow> world \<Rightarrow> nat \<times> world" where
  "createBindGroup d w = (length (bind_groups w), w\<lparr>bind_groups := bind_groups w @ [d]\<rparr>)"

definition copyImageBitmapToTexture :: "nat \<Rightarrow> nat \<Rightarrow> nat \<Rightarrow> nat \<Rightarrow> world \<Rightarrow> world" where
  "copyImageBitmapToTexture t wd ht depth w =
     w\<lparr>queue := queue w @ [CopyImageBitmapToTexture t wd ht depth]\<rparr>"

text \<open>
  \<^verbatim>\<open>queue.writeBuffer(buffer, bufferOffset, data, dataOffset, size)\<close>, offsets and size
  in bytes, \<open>data\<close> the numbers of the array buffer. A write that the API rejects (a
  range outside the data or the buffer, an offset or size that is not a multiple of 4, a
  buffer without \<^verbatim>\<open>COPY_DST\<close>) changes no buffer and is counted as a validation error.
\<close>

definition writeBuffer_valid :: "nat \<Rightarrow> nat \<Rightarrow> float32array \<Rightarrow> nat \<Rightarrow> nat \<Rightarrow> world \<Rightarrow> bool" where
  "writeBuffer_valid b bufferOffset data dataOffset sz w \<longleftrightarrow>
     b < length (buffers w) \<and>
     COPY_DST_BUFFER \<in> buffer_usage (buffers w ! b) \<and>
     bufferOffset mod 4 = 0 \<and> dataOffset mod 4 = 0 \<and> sz mod 4 = 0 \<and>
     dataOffset + sz \<le> byteLength data \<and>
     bufferOffset + sz \<le> buffer_size (buffers w ! b)"

definition write_range :: "real list \<Rightarrow> nat \<Rightarrow> real list \<Rightarrow> real list" where
  "write_range old i new = take i old @ new @ drop (i + length new) old"

definition writeBuffer :: "nat \<Rightarrow> nat \<Rightarrow> float32array \<Rightarrow> nat \<Rightarrow> nat \<Rightarrow> world \<Rightarrow> world" where
  "writeBuffer b bufferOffset data dataOffset sz w =
     (if writeBuffer_valid b bufferOffset data dataOffset sz w then
        w\<lparr>buffers := (buffers w)
             [b := (buffers w ! b)\<lparr>buffer_data :=
                write_range (buffer_data (buffers w ! b)) (bufferOffset div 4)
                  (take (sz div 4) (drop (dataOffset div 4) data))\<rparr>],
          queue := queue w @ [WriteBuffer b bufferOffset sz]\<rparr>
      else w\<lparr>validation_errors := Suc (validation_errors w)\<rparr>)"

definition createCommandEncoder :: "world \<Rightarrow> command_buffer \<times> world" where
  "createCommandEncoder w = ([], w\<lparr>command_encoders := Suc (command_encoders w)\<rparr>)"

text \<open>
  A render pass encoder: the descriptor as \<^verbatim>\<open>beginRenderPass\<close> read it, and the commands
  recorded so far. \<^verbatim>\<open>endPass\<close> appends the pass to the command encoder.
\<close>

record pass_encoder =
  pass_descriptor :: render_pass_descriptor
  pass_commands :: "render_command list"

definition beginRenderPass :: "render_pass_descriptor \<Rightarrow> pass_encoder" where
  "beginRenderPass d = \<lparr>pass_descriptor = d, pass_commands = []\<rparr>"

definition record_command :: "render_command \<Rightarrow> pass_encoder \<Rightarrow> pass_encoder" where
  "record_command c p = p\<lparr>pass_commands := pass_commands p @ [c]\<rparr>"

definition setPipeline :: "nat \<Rightarrow> pass_encoder \<Rightarrow> pass_encoder" where
  "setPipeline p = record_command (SetPipeline p)"

definition setBindGroup :: "nat \<Rightarrow> nat \<Rightarrow> pass_encoder \<Rightarrow> pass_encoder" where
  "setBindGroup i g = record_command (SetBindGroup i g)"

definition setVertexBuffer :: "nat \<Rightarrow> nat \<Rightarrow> pass_encoder \<Rightarrow> pass_encoder" where
  "setVertexBuffer slot b = record_command (SetVertexBuffer slot b)"

definition draw :: "nat \<Rightarrow> nat \<Rightarrow> nat \<Rightarrow> nat \<Rightarrow> pass_encoder \<Rightarrow> pass_encoder" where
  "draw vertexCount instanceCount firstVertex firstInstance =
     record_command (Draw vertexCount instanceCount firstVertex firstInstance)"

definition endPass :: "pass_encoder \<Rightarrow> command_buffer \<Rightarrow> command_buffer" where
  "endPass p enc = enc @ [RenderPass (pass_descriptor p) (pass_commands p)]"

definition finish :: "command_buffer \<Rightarrow> command_buffer" where
  "finish enc = enc"

definition submit :: "command_buffer list \<Rightarrow> world \<Rightarrow> world" where
  "submit cbs w = w\<lparr>queue := queue w @ [Submit cbs]\<rparr>"

section \<open>The sample\<close>

subsection \<open>What \<^verbatim>\<open>init\<close> is given\<close>

text \<open>
  The canvas (its \<^verbatim>\<open>width\<close> and \<^verbatim>\<open>height\<close> are unsigned integers), the decoded image,
  and the cube mesh imported from \<^verbatim>\<open>meshes/cube\<close>, a module that is not part of the
  sources at hand: its four exports are a parameter of \<open>init\<close>.
\<close>

record canvas =
  canvas_width :: nat
  canvas_height :: nat

record image_bitmap =
  bitmap_width :: nat
  bitmap_height :: nat

record cube_mesh =
  cubeVertexArray :: float32array
  cubeVertexSize :: nat
  cubeUVOffset :: nat
  cubePositionOffset :: nat

text \<open>The variables of \<^verbatim>\<open>init\<close> that hold a matrix or a GPU object.\<close>

record renderer =
  projectionMatrix :: addr
  swapChain :: texture_format
  verticesBuffer :: nat
  pipeline :: nat
  depthTexture :: nat
  renderPassDescriptor :: render_pass_descriptor
  uniformBuffer :: nat
  cubeTexture :: nat
  sampler :: nat
  uniformBindGroup :: nat

subsection \<open>\<^verbatim>\<open>init\<close>\<close>

text \<open>
  The calls are in the order of the source. \<^verbatim>\<open>canvas.width / canvas.height\<close> is a
  quotient of reals here. For a canvas of height 0 JavaScript computes \<^verbatim>\<open>Infinity\<close> or
  \<^verbatim>\<open>NaN\<close>, and for one of width 0 \<^verbatim>\<open>mat4.perspective\<close> divides by an aspect of 0 and
  stores \<^verbatim>\<open>Infinity\<close>; no real stands for either, so the properties that speak of the
  aspect ratio or give the numbers of the projection are stated for a canvas of positive
  width and height.
\<close>

definition init :: "cube_mesh \<Rightarrow> canvas \<Rightarrow> image_bitmap \<Rightarrow> bool \<Rightarrow> js_heap \<Rightarrow> world \<times> renderer" where
  "init mesh cv imageBitmap useWGSL h0 =
     (let device = requestDevice h0;
          aspect = \<bar>real (canvas_width cv) / real (canvas_height cv)\<bar>;
          (projectionMatrix0, h1) = mat4_create (heap device);
          h2 = mat4_perspective projectionMatrix0 (2 * pi / 5) aspect 1 100.0 h1;
          w1 = device\<lparr>heap := h2\<rparr>;
          swapChain0 = Bgra8unorm;
          (verticesBuffer0, w2) = createBuffer (byteLength (cubeVertexArray mesh)) {VERTEX} w1;
          w3 = set_mapped_range verticesBuffer0 (cubeVertexArray mesh) w2;
          (bindGroupLayout, w4) = createBindGroupLayout
             [\<lparr>entry_binding = 0, entry_visibility = Vertex_stage,
               entry_type = Uniform_buffer_binding\<rparr>,
              \<lparr>entry_binding = 1, entry_visibility = Fragment_stage,
               entry_type = Filtering_sampler_binding\<rparr>,
              \<lparr>entry_binding = 2, entry_visibility = Fragment_stage,
               entry_type = Float_texture_binding\<rparr>] w3;
          (pipelineLayout, w5) = createPipelineLayout [bindGroupLayout] w4;
          (vertexModule, w6) = createShaderModule
             (if useWGSL
              then \<lparr>module_lang = WGSL, module_source = Vertex_stage, module_transform = None\<rparr>
              else \<lparr>module_lang = GLSL, module_source = Vertex_stage,
                    module_transform = Some Vertex_stage\<rparr>) w5;
          (fragmentModule, w7) = createShaderModule
             (if useWGSL
              then \<lparr>module_lang = WGSL, module_source = Fragment_stage, module_transform = None\<rparr>
              else \<lparr>module_lang = GLSL, module_source = Fragment_stage,
                    module_transform = Some Fragment_stage\<rparr>) w6;
          (pipeline0, w8) = createRenderPipeline
             \<lparr>pipeline_layout = pipelineLayout,
              vertex_module = vertexModule,
              vertex_entryPoint = ''main'',
              vertex_buffers =
                [\<lparr>arrayStride = cubeVertexSize mesh,
                  attributes =
                    [\<lparr>shaderLocation = 0, attribute_offset = cubePositionOffset mesh,
                      attribute_format = Float32x4\<rparr>,
                     \<lparr>shaderLocation = 1, attribute_offset = cubeUVOffset mesh,
                      attribute_format = Float32x2\<rparr>]\<rparr>],
              fragment_module = fragmentModule,
              fragment_entryPoint = ''main'',
              fragment_targets = [Bgra8unorm],
              topology = Triangle_list,
              cullMode = Cull_back,
              depthWriteEnabled = True,
              depthCompare = Less,
              depthStencil_format = Depth24plus_stencil8\<rparr> w7;
          (depthTexture0, w9) = createTexture (canvas_width cv) (canvas_height cv)
             Depth24plus_stencil8 {RENDER_ATTACHMENT} w8;
          (depthView, w10) = createView (Device_texture depthTexture0) w9;
          renderPassDescriptor0 =
            \<lparr>colorAttachments =
               [\<lparr>color_attachment_view = None,
                 loadValue = Clear_to (0.5, 0.5, 0.5, 1.0),
                 color_storeOp = None\<rparr>],
             depthStencilAttachment =
               \<lparr>depth_attachment_view = depthView,
                depthLoadValue = Clear_to 1.0,
                depthStoreOp = Store,
                stencilLoadValue = Clear_to 0,
                stencilStoreOp = Store\<rparr>\<rparr>;
          uniformBufferSize = 4 * 16;
          (uniformBuffer0, w11) = createBuffer uniformBufferSize {UNIFORM, COPY_DST_BUFFER} w10;
          (cubeTexture0, w12) = createTexture (bitmap_width imageBitmap) (bitmap_height imageBitmap)
             Rgba8unorm {SAMPLED, COPY_DST_TEXTURE} w11;
          w13 = copyImageBitmapToTexture cubeTexture0
             (bitmap_width imageBitmap) (bitmap_height imageBitmap) 1 w12;
          (sampler0, w14) = createSampler \<lparr>magFilter = Linear, minFilter = Linear\<rparr> w13;
          layout0 = getBindGroupLayout pipeline0 0 w14;
          (cubeView, w15) = createView (Device_texture cubeTexture0) w14;
          (uniformBindGroup0, w16) = createBindGroup
             \<lparr>bind_group_layout = layout0,
              bind_group_entries =
                [(0, Buffer_resource uniformBuffer0),
                 (1, Sampler_resource sampler0),
                 (2, View_resource cubeView)]\<rparr> w15
      in (w16,
          \<lparr>projectionMatrix = projectionMatrix0,
           swapChain = swapChain0,
           verticesBuffer = verticesBuffer0,
           pipeline = pipeline0,
           depthTexture = depthTexture0,
           renderPassDescriptor = renderPassDescriptor0,
           uniformBuffer = uniformBuffer0,
           cubeTexture = cubeTexture0,
           sampler = sampler0,
           uniformBindGroup = uniformBindGroup0\<rparr>))"

subsection \<open>\<^verbatim>\<open>getTransformationMatrix\<close> and \<^verbatim>\<open>frame\<close>\<close>

text \<open>\<open>dateNow\<close> is what \<^verbatim>\<open>Date.now()\<close> returns: whole milliseconds.\<close>

definition getTransformationMatrix :: "addr \<Rightarrow> int \<Rightarrow> js_heap \<Rightarrow> addr \<times> js_heap" where
  "getTransformationMatrix projectionMatrix0 dateNow h0 =
     (let (viewMatrix, h1) = mat4_create h0;
          h2 = mat4_translate viewMatrix viewMatrix (vec3_fromValues 0 0 (- 4)) h1;
          now = real_of_int dateNow / 1000;
          h3 = mat4_rotate viewMatrix viewMatrix 1 (vec3_fromValues (sin now) (cos now) 0) h2;
          (modelViewProjectionMatrix, h4) = mat4_create h3;
          h5 = mat4_multiply modelViewProjectionMatrix projectionMatrix0 viewMatrix h4
      in (modelViewProjectionMatrix, h5))"

text \<open>
  One call of \<^verbatim>\<open>frame\<close>. \<open>currentTexture\<close> is the image \<^verbatim>\<open>swapChain.getCurrentTexture()\<close>
  returns. A fresh \<^verbatim>\<open>Float32Array\<close> is the whole of its array buffer, so its
  \<^verbatim>\<open>byteOffset\<close> is 0.
\<close>

definition frame :: "int \<Rightarrow> nat \<Rightarrow> world \<times> renderer \<Rightarrow> world \<times> renderer" where
  "frame dateNow currentTexture s =
     (case s of (w0, r) \<Rightarrow>
        let (transformationMatrix, h1) =
              getTransformationMatrix (projectionMatrix r) dateNow (heap w0);
            w1 = w0\<lparr>heap := h1\<rparr>;
            w2 = writeBuffer (uniformBuffer r) 0 (cells h1 transformationMatrix) 0
                   (byteLength (cells h1 transformationMatrix)) w1;
            (view, w3) = createView (Swap_chain_texture currentTexture) w2;
            d = renderPassDescriptor r;
            r1 = r\<lparr>renderPassDescriptor :=
                   d\<lparr>colorAttachments := (colorAttachments d)
                       [0 := (colorAttachments d ! 0)\<lparr>color_attachment_view := Some view\<rparr>]\<rparr>\<rparr>;
            (commandEncoder, w4) = createCommandEncoder w3;
            passEncoder = beginRenderPass (renderPassDescriptor r1);
            passEncoder1 = setPipeline (pipeline r1) passEncoder;
            passEncoder2 = setBindGroup 0 (uniformBindGroup r1) passEncoder1;
            passEncoder3 = setVertexBuffer 0 (verticesBuffer r1) passEncoder2;
            passEncoder4 = draw 36 1 0 0 passEncoder3;
            commandEncoder1 = endPass passEncoder4 commandEncoder;
            w5 = submit [finish commandEncoder1] w4
        in (w5, r1))"

text \<open>The host calls \<^verbatim>\<open>frame\<close> again and again, each time at some clock reading and with
  some swap-chain image.\<close>

fun run_frames :: "(int \<times> nat) list \<Rightarrow> world \<times> renderer \<Rightarrow> world \<times> renderer" where
  "run_frames [] s = s"
| "run_frames (i # ins) s = run_frames ins (frame (fst i) (snd i) s)"

subsection \<open>The shaders\<close>

text \<open>
  The four shader sources of the file, each as the function its \<^verbatim>\<open>main\<close> computes from
  the inputs of the stage to its outputs. \<open>modelViewProjectionMatrix\<close> is the sixteen
  numbers of the uniform block, column after column.
\<close>

definition vec4_splat :: "real \<Rightarrow> vec4" where
  "vec4_splat a = (a, a, a, a)"

definition vec4_add :: "vec4 \<Rightarrow> vec4 \<Rightarrow> vec4" where
  "vec4_add p q = (case p of (a, b, c, d) \<Rightarrow> case q of (e, f, g, h) \<Rightarrow> (a + e, b + f, c + g, d + h))"

definition vec4_scale :: "real \<Rightarrow> vec4 \<Rightarrow> vec4" where
  "vec4_scale k p = (case p of (a, b, c, d) \<Rightarrow> (k * a, k * b, k * c, k * d))"

definition vec4_mul :: "vec4 \<Rightarrow> vec4 \<Rightarrow> vec4" where
  "vec4_mul p q = (case p of (a, b, c, d) \<Rightarrow> case q of (e, f, g, h) \<Rightarrow> (a * e, b * f, c * g, d * h))"

definition mat4_times_vec4 :: "float32array \<Rightarrow> vec4 \<Rightarrow> vec4" where
  "mat4_times_vec4 m p =
     (case p of (x, y, z, w) \<Rightarrow>
        (m ! 0 * x + m ! 4 * y + m ! 8 * z + m ! 12 * w,
         m ! 1 * x + m ! 5 * y + m ! 9 * z + m ! 13 * w,
         m ! 2 * x + m ! 6 * y + m ! 10 * z + m ! 14 * w,
         m ! 3 * x + m ! 7 * y + m ! 11 * z + m ! 15 * w))"

record vertex_output =
  Position :: vec4
  fragUV :: vec2
  fragPosition :: vec4

text \<open>\<^verbatim>\<open>glslShaders.vertex\<close>; \<^verbatim>\<open>vec4(1.0)\<close> has the scalar in every component.\<close>

definition glsl_vertex_main :: "float32array \<Rightarrow> vec4 \<Rightarrow> vec2 \<Rightarrow> vertex_output" where
  "glsl_vertex_main modelViewProjectionMatrix position uv =
     \<lparr>Position = mat4_times_vec4 modelViewProjectionMatrix position,
      fragUV = uv,
      fragPosition = vec4_scale 0.5 (vec4_add position (vec4_splat 1.0))\<rparr>"

text \<open>\<^verbatim>\<open>wgslShaders.vertex\<close>\<close>

definition wgsl_vertex_main :: "float32array \<Rightarrow> vec4 \<Rightarrow> vec2 \<Rightarrow> vertex_output" where
  "wgsl_vertex_main modelViewProjectionMatrix position uv =
     \<lparr>Position = mat4_times_vec4 modelViewProjectionMatrix position,
      fragUV = uv,
      fragPosition = vec4_scale 0.5 (vec4_add position (1.0, 1.0, 1.0, 1.0))\<rparr>"

text \<open>
  The fragment shaders. \<open>textureSample\<close> is the lookup the GPU performs for a texture,
  a sampler and a coordinate: \<^verbatim>\<open>texture(sampler2D(myTexture, mySampler), fragUV)\<close> in GLSL,
  \<^verbatim>\<open>textureSample(myTexture, mySampler, fragUV)\<close> in WGSL.
\<close>

definition glsl_fragment_main ::
  "('t \<Rightarrow> 's \<Rightarrow> vec2 \<Rightarrow> vec4) \<Rightarrow> 't \<Rightarrow> 's \<Rightarrow> vec2 \<Rightarrow> vec4 \<Rightarrow> vec4" where
  "glsl_fragment_main textureSample myTexture mySampler fragUV0 fragPosition0 =
     vec4_mul (textureSample myTexture mySampler fragUV0) fragPosition0"

definition wgsl_fragment_main ::
  "('t \<Rightarrow> 's \<Rightarrow> vec2 \<Rightarrow> vec4) \<Rightarrow> 't \<Rightarrow> 's \<Rightarrow> vec2 \<Rightarrow> vec4 \<Rightarrow> vec4" where
  "wgsl_fragment_main textureSample myTexture mySampler fragUV0 fragPosition0 =
     vec4_mul (textureSample myTexture mySampler fragUV0) fragPosition0"

text \<open>What a shader module computes when it is the vertex or the fragment stage of a
  pipeline: \<open>None\<close> when its source is of the other stage.\<close>

definition vertex_stage_main ::
  "shader_module \<Rightarrow> (float32array \<Rightarrow> vec4 \<Rightarrow> vec2 \<Rightarrow> vertex_output) option" where
  "vertex_stage_main m =
     (case module_source m of
        Fragment_stage \<Rightarrow> None
      | Vertex_stage \<Rightarrow>
          (case module_lang m of GLSL \<Rightarrow> Some glsl_vertex_main | WGSL \<Rightarrow> Some wgsl_vertex_main))"

definition fragment_stage_main ::
  "shader_module \<Rightarrow> (('t \<Rightarrow> 's \<Rightarrow> vec2 \<Rightarrow> vec4) \<Rightarrow> 't \<Rightarrow> 's \<Rightarrow> vec2 \<Rightarrow> vec4 \<Rightarrow> vec4) option" where
  "fragment_stage_main m =
     (case module_source m of
        Vertex_stage \<Rightarrow> None
      | Fragment_stage \<Rightarrow>
          (case module_lang m of GLSL \<Rightarrow> Some glsl_fragment_main | WGSL \<Rightarrow> Some wgsl_fragment_main))"

text \<open>The stage functions of the pipeline a renderer draws with.\<close>

definition pipeline_vertex_main ::
  "world \<times> renderer \<Rightarrow> (float32array \<Rightarrow> vec4 \<Rightarrow> vec2 \<Rightarrow> vertex_output) option" where
  "pipeline_vertex_main s =
     vertex_stage_main (shader_modules (fst s) ! vertex_module (pipelines (fst s) ! pipeline (snd s)))"

definition pipeline_fragment_main ::
  "world \<times> renderer \<Rightarrow>
     (('t \<Rightarrow> 's \<Rightarrow> vec2 \<Rightarrow> vec4) \<Rightarrow> 't \<Rightarrow> 's \<Rightarrow> vec2 \<Rightarrow> vec4 \<Rightarrow> vec4) option" where
  "pipeline_fragment_main s =
     fragment_stage_main
       (shader_modules (fst s) ! fragment_module (pipelines (fst s) ! pipeline (snd s)))"

section \<open>Notions the properties are stated with\<close>

subsection \<open>Matrices\<close>

text \<open>
  The product of two 4\<times>4 matrices stored column after column: entry \<open>4 * j + i\<close> of
  the product is row \<open>i\<close> of \<open>a\<close> times column \<open>j\<close> of \<open>b\<close>.
\<close>

definition mat4_product :: "float32array \<Rightarrow> float32array \<Rightarrow> float32array" where
  "mat4_product a b =
     concat (map (\<lambda>j. map (\<lambda>i. a ! i * b ! (4 * j)
                               + a ! (4 + i) * b ! (4 * j + 1)
                               + a ! (8 + i) * b ! (4 * j + 2)
                               + a ! (12 + i) * b ! (4 * j + 3)) [0, 1, 2, 3]) [0, 1, 2, 3])"

definition translation_matrix :: "vec3 \<Rightarrow> float32array" where
  "translation_matrix v =
     (case v of (x, y, z) \<Rightarrow> [1, 0, 0, 0,  0, 1, 0, 0,  0, 0, 1, 0,  x, y, z, 1])"

text \<open>The rotation by \<open>rad\<close> about a unit axis (Rodrigues' formula).\<close>

definition rotation_matrix :: "real \<Rightarrow> vec3 \<Rightarrow> float32array" where
  "rotation_matrix rad axis =
     (case axis of (x, y, z) \<Rightarrow>
        let s = sin rad; c = cos rad; t = 1 - c
        in [x * x * t + c, y * x * t + z * s, z * x * t - y * s, 0,
            x * y * t - z * s, y * y * t + c, z * y * t + x * s, 0,
            x * z * t + y * s, y * z * t - x * s, z * z * t + c, 0,
            0, 0, 0, 1])"

definition view_matrix :: "real \<Rightarrow> float32array" where
  "view_matrix t =
     mat4_product (translation_matrix (0, 0, - 4)) (rotation_matrix 1 (sin t, cos t, 0))"

subsection \<open>States of the render loop\<close>

text \<open>
  What \<^verbatim>\<open>frame\<close> relies on: the projection matrix is an allocated array, the uniform
  buffer exists, has 64 bytes and may be the target of a copy, and the descriptor has its
  one colour attachment.
\<close>

definition ready :: "world \<times> renderer \<Rightarrow> bool" where
  "ready s \<longleftrightarrow>
     projectionMatrix (snd s) < next_addr (heap (fst s)) \<and>
     uniformBuffer (snd s) < length (buffers (fst s)) \<and>
     buffer_size (buffers (fst s) ! uniformBuffer (snd s)) = 64 \<and>
     length (buffer_data (buffers (fst s) ! uniformBuffer (snd s))) = 16 \<and>
     COPY_DST_BUFFER \<in> buffer_usage (buffers (fst s) ! uniformBuffer (snd s)) \<and>
     length (colorAttachments (renderPassDescriptor (snd s))) = 1"

text \<open>
  Two worlds hold the same GPU objects: the same textures, samplers, shader modules,
  layouts, pipelines and bind groups, and the same buffers with the same sizes and usages.
\<close>

definition same_objects :: "world \<Rightarrow> world \<Rightarrow> bool" where
  "same_objects w w' \<longleftrightarrow>
     map buffer_size (buffers w') = map buffer_size (buffers w) \<and>
     map buffer_usage (buffers w') = map buffer_usage (buffers w) \<and>
     textures w' = textures w \<and>
     samplers w' = samplers w \<and>
     shader_modules w' = shader_modules w \<and>
     bind_group_layouts w' = bind_group_layouts w \<and>
     pipeline_layouts w' = pipeline_layouts w \<and>
     pipelines w' = pipelines w \<and>
     bind_groups w' = bind_groups w"

text \<open>Two renderers hold the same matrix and the same GPU objects.\<close>

definition same_handles :: "renderer \<Rightarrow> renderer \<Rightarrow> bool" where
  "same_handles r r' \<longleftrightarrow>
     projectionMatrix r' = projectionMatrix r \<and>
     swapChain r' = swapChain r \<and>
     verticesBuffer r' = verticesBuffer r \<and>
     pipeline r' = pipeline r \<and>
     depthTexture r' = depthTexture r \<and>
     uniformBuffer r' = uniformBuffer r \<and>
     cubeTexture r' = cubeTexture r \<and>
     sampler r' = sampler r \<and>
     uniformBindGroup r' = uniformBindGroup r"

text \<open>
  The descriptor a call of \<^verbatim>\<open>frame\<close> leaves behind: the first colour attachment is
  given the view that the call creates, whose handle is the number of views so far.
\<close>

definition frame_descriptor :: "world \<times> renderer \<Rightarrow> render_pass_descriptor" where
  "frame_descriptor s =
     (renderPassDescriptor (snd s))
       \<lparr>colorAttachments := (colorAttachments (renderPassDescriptor (snd s)))
          [0 := (colorAttachments (renderPassDescriptor (snd s)) ! 0)
                  \<lparr>color_attachment_view := Some (length (texture_views (fst s)))\<rparr>]\<rparr>"

text \<open>The projection matrix of a state, times the view matrix of a clock reading.\<close>

definition frame_matrix :: "int \<Rightarrow> world \<times> renderer \<Rightarrow> float32array" where
  "frame_matrix dateNow s =
     mat4_product (cells (heap (fst s)) (projectionMatrix (snd s)))
       (view_matrix (real_of_int dateNow / 1000))"

text \<open>Two descriptors differ at most in the views of their colour attachments.\<close>

definition same_pass_settings :: "render_pass_descriptor \<Rightarrow> render_pass_descriptor \<Rightarrow> bool" where
  "same_pass_settings d d' \<longleftrightarrow>
     depthStencilAttachment d' = depthStencilAttachment d \<and>
     map loadValue (colorAttachments d') = map loadValue (colorAttachments d) \<and>
     map color_storeOp (colorAttachments d') = map color_storeOp (colorAttachments d)"

subsection \<open>The cube mesh\<close>

definition vertex_format_size :: "vertex_format \<Rightarrow> nat" where
  "vertex_format_size f = (case f of Float32x2 \<Rightarrow> 8 | Float32x3 \<Rightarrow> 12 | Float32x4 \<Rightarrow> 16)"

text \<open>
  Modelled from the spec: the exports of \<^verbatim>\<open>meshes/cube\<close> (\<^verbatim>\<open>cubeVertexArray\<close>,
  \<^verbatim>\<open>cubeVertexSize\<close>, \<^verbatim>\<open>cubePositionOffset\<close>, \<^verbatim>\<open>cubeUVOffset\<close>), a module that is not
  among the sources. The spec gives 36 vertices, each a position of four floats followed
  by a UV of two floats, so a stride of 24 bytes.
\<close>

definition spec_cube_mesh :: "cube_mesh \<Rightarrow> bool" where
  "spec_cube_mesh m \<longleftrightarrow>
     length (cubeVertexArray m) = 36 * (4 + 2) \<and>
     cubeVertexSize m = 4 * (4 + 2) \<and>
     cubePositionOffset m = 0 \<and>
     cubeUVOffset m = 4 * 4"

section \<open>The matrix operations\<close>

lemma replicate16: "replicate 16 (x::'a) = [x, x, x, x, x, x, x, x, x, x, x, x, x, x, x, x]"
  by (simp add: numeral_eq_Suc)

lemma mat4_identity_list:
  "mat4_identity = [1, 0, 0, 0,  0, 1, 0, 0,  0, 0, 1, 0,  0, 0, 0, 1]"
  by (simp add: mat4_identity_def replicate16)

lemma mat4_create_eq:
  "mat4_create h =
     (next_addr h,
      h\<lparr>cells := (cells h)(next_addr h := mat4_identity), next_addr := Suc (next_addr h)\<rparr>)"
  by (simp add: mat4_create_def float32array_new_def mat4_identity_def)

lemma mat4_product_list:
  "mat4_product a b =
     [a ! 0 * b ! 0 + a ! 4 * b ! 1 + a ! 8 * b ! 2 + a ! 12 * b ! 3,
      a ! 1 * b ! 0 + a ! 5 * b ! 1 + a ! 9 * b ! 2 + a ! 13 * b ! 3,
      a ! 2 * b ! 0 + a ! 6 * b ! 1 + a ! 10 * b ! 2 + a ! 14 * b ! 3,
      a ! 3 * b ! 0 + a ! 7 * b ! 1 + a ! 11 * b ! 2 + a ! 15 * b ! 3,
      a ! 0 * b ! 4 + a ! 4 * b ! 5 + a ! 8 * b ! 6 + a ! 12 * b ! 7,
      a ! 1 * b ! 4 + a ! 5 * b ! 5 + a ! 9 * b ! 6 + a ! 13 * b ! 7,
      a ! 2 * b ! 4 + a ! 6 * b ! 5 + a ! 10 * b ! 6 + a ! 14 * b ! 7,
      a ! 3 * b ! 4 + a ! 7 * b ! 5 + a ! 11 * b ! 6 + a ! 15 * b ! 7,
      a ! 0 * b ! 8 + a ! 4 * b ! 9 + a ! 8 * b ! 10 + a ! 12 * b ! 11,
      a ! 1 * b ! 8 + a ! 5 * b ! 9 + a ! 9 * b ! 10 + a ! 13 * b ! 11,
      a ! 2 * b ! 8 + a ! 6 * b ! 9 + a ! 10 * b ! 10 + a ! 14 * b ! 11,
      a ! 3 * b ! 8 + a ! 7 * b ! 9 + a ! 11 * b ! 10 + a ! 15 * b ! 11,
      a ! 0 * b ! 12 + a ! 4 * b ! 13 + a ! 8 * b ! 14 + a ! 12 * b ! 15,
      a ! 1 * b ! 12 + a ! 5 * b ! 13 + a ! 9 * b ! 14 + a ! 13 * b ! 15,
      a ! 2 * b ! 12 + a ! 6 * b ! 13 + a ! 10 * b ! 14 + a ! 14 * b ! 15,
      a ! 3 * b ! 12 + a ! 7 * b ! 13 + a ! 11 * b ! 14 + a ! 15 * b ! 15]"
  by (simp add: mat4_product_def numeral_2_eq_2 [symmetric])

lemma multiply_values_product: "multiply_values a b = mat4_product a b"
  by (simp add: multiply_values_def mat4_product_list algebra_simps)

lemma translate_values_product: "translate_values a v = mat4_product a (translation_matrix v)"
  by (cases v)
    (simp add: translate_values_def mat4_product_list translation_matrix_def algebra_simps)

text \<open>The axis \<open>(sin t, cos t, 0)\<close> has length 1, so \<^verbatim>\<open>mat4.rotate\<close> never gives up on it.\<close>

lemma hypot3_sin_cos: "hypot3 (sin t) (cos t) 0 = 1"
proof -
  have "sin t * sin t + cos t * cos t = 1"
    using sin_cos_squared_add [of t] by (simp add: power2_eq_square)
  then show ?thesis by (simp add: hypot3_def)
qed

lemma rotate_values_unit_axis:
  "rotate_values a rad (sin t, cos t, 0) =
     Some (mat4_product a (rotation_matrix rad (sin t, cos t, 0)))"
  by (simp add: rotate_values_def hypot3_sin_cos EPSILON_def mat4_product_list
      rotation_matrix_def Let_def algebra_simps)

lemma translate_identity: "translate_values mat4_identity v = translation_matrix v"
  by (cases v) (simp add: translate_values_def translation_matrix_def mat4_identity_list)

lemma view_values:
  "rotate_values (translate_values mat4_identity (vec3_fromValues 0 0 (- 4))) 1
     (vec3_fromValues (sin t) (cos t) 0) = Some (view_matrix t)"
  by (simp add: vec3_fromValues_def translate_identity rotate_values_unit_axis view_matrix_def)

lemma view_matrix_at_0:
  "view_matrix 0 = [cos 1, 0, - sin 1, 0,  0, 1, 0, 0,  sin 1, 0, cos 1, 0,  0, 0, - 4, 1]"
  by (simp add: view_matrix_def mat4_product_list translation_matrix_def rotation_matrix_def
      Let_def)

section \<open>One call of \<^verbatim>\<open>frame\<close>\<close>

lemma getTransformationMatrix_eq:
  assumes "p < next_addr h"
  shows "getTransformationMatrix p dateNow h =
     (Suc (next_addr h),
      h\<lparr>cells := (cells h)
           (next_addr h := view_matrix (real_of_int dateNow / 1000),
            Suc (next_addr h) :=
              mat4_product (cells h p) (view_matrix (real_of_int dateNow / 1000))),
        next_addr := Suc (Suc (next_addr h))\<rparr>)"
  using assms
  by (simp add: getTransformationMatrix_def mat4_create_eq mat4_translate_def mat4_rotate_def
      mat4_multiply_def view_values multiply_values_product Let_def)

lemma length_mat4_product: "length (mat4_product a b) = 16"
  by (simp add: mat4_product_list)

lemma write_range_all: "length old = length new \<Longrightarrow> write_range old 0 new = new"
  by (simp add: write_range_def)

lemma frame_eq:
  assumes "ready (w, r)"
  shows "frame dateNow tex (w, r) =
     (w\<lparr>heap := snd (getTransformationMatrix (projectionMatrix r) dateNow (heap w)),
        buffers := (buffers w)
          [uniformBuffer r := (buffers w ! uniformBuffer r)
             \<lparr>buffer_data := frame_matrix dateNow (w, r)\<rparr>],
        texture_views := texture_views w @ [Swap_chain_texture tex],
        command_encoders := Suc (command_encoders w),
        queue := queue w @
          [WriteBuffer (uniformBuffer r) 0 64,
           Submit [[RenderPass (frame_descriptor (w, r))
                     [SetPipeline (pipeline r), SetBindGroup 0 (uniformBindGroup r),
                      SetVertexBuffer 0 (verticesBuffer r), Draw 36 1 0 0]]]]\<rparr>,
      r\<lparr>renderPassDescriptor := frame_descriptor (w, r)\<rparr>)"
  using assms
  by (simp add: frame_def ready_def getTransformationMatrix_eq Let_def writeBuffer_def
      writeBuffer_valid_def byteLength_def length_mat4_product write_range_all createView_def
      createCommandEncoder_def beginRenderPass_def setPipeline_def setBindGroup_def
      setVertexBuffer_def draw_def record_command_def endPass_def finish_def submit_def
      frame_descriptor_def frame_matrix_def)

text \<open>What a call of \<^verbatim>\<open>frame\<close> does whatever the state is.\<close>

lemma map_update_same: "f y = f (xs ! i) \<Longrightarrow> map f (xs[i := y]) = map f xs"
  by (cases "i < length xs")
    (simp_all add: map_update list_update_same_conv list_update_beyond)

lemma snd_frame:
  "snd (frame dateNow tex s) = (snd s)\<lparr>renderPassDescriptor := frame_descriptor s\<rparr>"
  by (cases s)
    (simp add: frame_def Let_def split_def writeBuffer_def createView_def
      createCommandEncoder_def submit_def frame_descriptor_def)

lemma frame_same_objects: "same_objects (fst s) (fst (frame dateNow tex s))"
  by (cases s)
    (simp add: frame_def Let_def split_def writeBuffer_def createView_def
      createCommandEncoder_def submit_def same_objects_def map_update_same)

lemma frame_same_handles: "same_handles (snd s) (snd (frame dateNow tex s))"
  by (simp add: snd_frame same_handles_def)

lemma frame_same_pass_settings:
  "same_pass_settings (renderPassDescriptor (snd s))
     (renderPassDescriptor (snd (frame dateNow tex s)))"
  by (simp add: snd_frame same_pass_settings_def frame_descriptor_def map_update_same)

lemma frame_ready: "ready s \<Longrightarrow> ready (frame dateNow tex s)"
  by (cases s)
    (simp add: frame_eq,
     simp add: ready_def getTransformationMatrix_eq frame_descriptor_def frame_matrix_def
       length_mat4_product)

lemma frame_heap:
  assumes "ready s"
  shows "heap (fst (frame dateNow tex s)) =
           snd (getTransformationMatrix (projectionMatrix (snd s)) dateNow (heap (fst s)))"
  using assms by (cases s) (simp add: frame_eq)

lemma frame_keeps_cell:
  assumes "ready s" and "a < next_addr (heap (fst s))"
  shows "cells (heap (fst (frame dateNow tex s))) a = cells (heap (fst s)) a"
  using assms by (simp add: frame_heap, simp add: ready_def getTransformationMatrix_eq)

lemma frame_next_addr:
  assumes "ready s"
  shows "next_addr (heap (fst (frame dateNow tex s))) = Suc (Suc (next_addr (heap (fst s))))"
  using assms by (simp add: frame_heap, simp add: ready_def getTransformationMatrix_eq)

lemma frame_validation_errors:
  assumes "ready s"
  shows "validation_errors (fst (frame dateNow tex s)) = validation_errors (fst s)"
  using assms by (cases s) (simp add: frame_eq)

section \<open>Any number of calls\<close>

lemma same_objects_refl: "same_objects w w"
  by (simp add: same_objects_def)

lemma same_objects_trans: "same_objects a b \<Longrightarrow> same_objects b c \<Longrightarrow> same_objects a c"
  by (simp add: same_objects_def)

lemma same_handles_trans: "same_handles a b \<Longrightarrow> same_handles b c \<Longrightarrow> same_handles a c"
  by (simp add: same_handles_def)

lemma same_pass_settings_trans:
  "same_pass_settings a b \<Longrightarrow> same_pass_settings b c \<Longrightarrow> same_pass_settings a c"
  by (simp add: same_pass_settings_def)

lemma run_frames_ready: "ready s \<Longrightarrow> ready (run_frames ins s)"
  by (induction ins arbitrary: s) (simp_all add: frame_ready)

lemma run_frames_same_objects: "same_objects (fst s) (fst (run_frames ins s))"
proof (induction ins arbitrary: s)
  case Nil
  show ?case by (simp add: same_objects_refl)
next
  case (Cons i ins)
  show ?case
    using same_objects_trans [OF frame_same_objects Cons.IH] by simp
qed

lemma run_frames_same_handles: "same_handles (snd s) (snd (run_frames ins s))"
proof (induction ins arbitrary: s)
  case Nil
  show ?case by (simp add: same_handles_def)
next
  case (Cons i ins)
  show ?case
    using same_handles_trans [OF frame_same_handles Cons.IH] by simp
qed

lemma run_frames_same_pass_settings:
  "same_pass_settings (renderPassDescriptor (snd s))
     (renderPassDescriptor (snd (run_frames ins s)))"
proof (induction ins arbitrary: s)
  case Nil
  show ?case by (simp add: same_pass_settings_def)
next
  case (Cons i ins)
  show ?case
    using same_pass_settings_trans [OF frame_same_pass_settings Cons.IH] by simp
qed

lemma run_frames_keeps_cell:
  assumes "ready s" and "a < next_addr (heap (fst s))"
  shows "cells (heap (fst (run_frames ins s))) a = cells (heap (fst s)) a"
  using assms
proof (induction ins arbitrary: s)
  case Nil
  show ?case by simp
next
  case (Cons i ins)
  have "a < next_addr (heap (fst (frame (fst i) (snd i) s)))"
    using Cons.prems by (simp add: frame_next_addr)
  then have "cells (heap (fst (run_frames ins (frame (fst i) (snd i) s)))) a =
             cells (heap (fst (frame (fst i) (snd i) s))) a"
    using Cons.IH Cons.prems(1) by (simp add: frame_ready)
  then show ?case
    using Cons.prems by (simp add: frame_keeps_cell)
qed

lemma run_frames_validation_errors:
  assumes "ready s"
  shows "validation_errors (fst (run_frames ins s)) = validation_errors (fst s)"
  using assms
  by (induction ins arbitrary: s) (simp_all add: frame_ready frame_validation_errors)

section \<open>The state \<^verbatim>\<open>init\<close> returns\<close>

lemma init_eq:
  "init mesh cv bm useWGSL h0 =
     (\<lparr>heap = h0\<lparr>cells := (cells h0)
                  (next_addr h0 :=
                     perspective_values (2 * pi / 5)
                       \<bar>real (canvas_width cv) / real (canvas_height cv)\<bar> 1 100),
                next_addr := Suc (next_addr h0)\<rparr>,
       buffers =
         [\<lparr>buffer_size = 4 * length (cubeVertexArray mesh), buffer_usage = {VERTEX},
           buffer_data = cubeVertexArray mesh\<rparr>,
          \<lparr>buffer_size = 64, buffer_usage = {UNIFORM, COPY_DST_BUFFER},
           buffer_data = replicate 16 0\<rparr>],
       textures =
         [\<lparr>texture_width = canvas_width cv, texture_height = canvas_height cv,
           texture_format = Depth24plus_stencil8, texture_usage = {RENDER_ATTACHMENT}\<rparr>,
          \<lparr>texture_width = bitmap_width bm, texture_height = bitmap_height bm,
           texture_format = Rgba8unorm, texture_usage = {SAMPLED, COPY_DST_TEXTURE}\<rparr>],
       texture_views = [Device_texture 0, Device_texture 1],
       samplers = [\<lparr>magFilter = Linear, minFilter = Linear\<rparr>],
       shader_modules =
         [\<lparr>module_lang = (if useWGSL then WGSL else GLSL), module_source = Vertex_stage,
           module_transform = (if useWGSL then None else Some Vertex_stage)\<rparr>,
          \<lparr>module_lang = (if useWGSL then WGSL else GLSL), module_source = Fragment_stage,
           module_transform = (if useWGSL then None else Some Fragment_stage)\<rparr>],
       bind_group_layouts =
         [[\<lparr>entry_binding = 0, entry_visibility = Vertex_stage,
            entry_type = Uniform_buffer_binding\<rparr>,
           \<lparr>entry_binding = 1, entry_visibility = Fragment_stage,
            entry_type = Filtering_sampler_binding\<rparr>,
           \<lparr>entry_binding = 2, entry_visibility = Fragment_stage,
            entry_type = Float_texture_binding\<rparr>]],
       pipeline_layouts = [[0]],
       pipelines =
         [\<lparr>pipeline_layout = 0, vertex_module = 0, vertex_entryPoint = ''main'',
           vertex_buffers =
             [\<lparr>arrayStride = cubeVertexSize mesh,
               attributes =
                 [\<lparr>shaderLocation = 0, attribute_offset = cubePositionOffset mesh,
                   attribute_format = Float32x4\<rparr>,
                  \<lparr>shaderLocation = 1, attribute_offset = cubeUVOffset mesh,
                   attribute_format = Float32x2\<rparr>]\<rparr>],
           fragment_module = 1, fragment_entryPoint = ''main'',
           fragment_targets = [Bgra8unorm], topology = Triangle_list,
           cullMode = Cull_back, depthWriteEnabled = True, depthCompare = Less,
           depthStencil_format = Depth24plus_stencil8\<rparr>],
       bind_groups =
         [\<lparr>bind_group_layout = 0,
           bind_group_entries =
             [(0, Buffer_resource 1), (1, Sampler_resource 0), (2, View_resource 1)]\<rparr>],
       command_encoders = 0,
       queue = [CopyImageBitmapToTexture 1 (bitmap_width bm) (bitmap_height bm) 1],
       validation_errors = 0\<rparr>,
      \<lparr>projectionMatrix = next_addr h0, swapChain = Bgra8unorm, verticesBuffer = 0,
       pipeline = 0, depthTexture = 0,
       renderPassDescriptor =
         \<lparr>colorAttachments =
            [\<lparr>color_attachment_view = None, loadValue = Clear_to (0.5, 0.5, 0.5, 1.0),
              color_storeOp = None\<rparr>],
          depthStencilAttachment =
            \<lparr>depth_attachment_view = 0, depthLoadValue = Clear_to 1.0,
             depthStoreOp = Store, stencilLoadValue = Clear_to 0,
             stencilStoreOp = Store\<rparr>\<rparr>,
       uniformBuffer = 1, cubeTexture = 1, sampler = 0, uniformBindGroup = 0\<rparr>)"
  by (cases useWGSL)
    (simp_all add: init_def Let_def requestDevice_def mat4_create_def float32array_new_def
      mat4_perspective_def createBuffer_def set_mapped_range_def createBindGroupLayout_def
      createPipelineLayout_def createShaderModule_def createRenderPipeline_def
      createTexture_def createView_def createSampler_def getBindGroupLayout_def
      createBindGroup_def copyImageBitmapToTexture_def byteLength_def)

text \<open>\<^verbatim>\<open>init\<close> leaves a state \<^verbatim>\<open>frame\<close> can run in, and so does every call of \<^verbatim>\<open>frame\<close>.\<close>

lemma init_ready: "ready (init mesh cv bm useWGSL h0)"
  by (simp add: init_eq ready_def)

section \<open>The states the render loop reaches\<close>

text \<open>
  In what follows a state of the render loop is \<open>run_frames ins (init mesh cv bm useWGSL h0)\<close>:
  \<^verbatim>\<open>init\<close> on any mesh, canvas, image, dialect flag and heap, followed by any calls of
  \<^verbatim>\<open>frame\<close>.
\<close>

lemma reached_ready: "ready (run_frames ins (init mesh cv bm useWGSL h0))"
  by (simp add: run_frames_ready init_ready)

lemma reached_handles:
  "same_handles (snd (init mesh cv bm useWGSL h0))
     (snd (run_frames ins (init mesh cv bm useWGSL h0)))"
  by (rule run_frames_same_handles)

lemma reached_projectionMatrix:
  "projectionMatrix (snd (run_frames ins (init mesh cv bm useWGSL h0))) = next_addr h0"
  using reached_handles [of mesh cv bm useWGSL h0 ins]
  by (simp add: same_handles_def init_eq)

lemma reached_uniformBuffer:
  "uniformBuffer (snd (run_frames ins (init mesh cv bm useWGSL h0))) = 1"
  using reached_handles [of mesh cv bm useWGSL h0 ins]
  by (simp add: same_handles_def init_eq)

lemma reached_projection:
  "cells (heap (fst (run_frames ins (init mesh cv bm useWGSL h0)))) (next_addr h0) =
     perspective_values (2 * pi / 5) \<bar>real (canvas_width cv) / real (canvas_height cv)\<bar> 1 100"
proof -
  have "next_addr h0 < next_addr (heap (fst (init mesh cv bm useWGSL h0)))"
    by (simp add: init_eq)
  then have "cells (heap (fst (run_frames ins (init mesh cv bm useWGSL h0)))) (next_addr h0) =
        cells (heap (fst (init mesh cv bm useWGSL h0))) (next_addr h0)"
    using init_ready by (rule run_frames_keeps_cell [rotated])
  then show ?thesis by (simp add: init_eq)
qed

lemma frame_uniform_data:
  assumes "ready s"
  shows "buffer_data (buffers (fst (frame dateNow tex s)) ! uniformBuffer (snd (frame dateNow tex s)))
           = frame_matrix dateNow s"
  using assms by (cases s) (simp add: frame_eq, simp add: ready_def)

lemma fst_frame:
  assumes "ready s"
  shows "fst (frame dateNow tex s) =
     (fst s)\<lparr>heap := snd (getTransformationMatrix (projectionMatrix (snd s)) dateNow (heap (fst s))),
        buffers := (buffers (fst s))
          [uniformBuffer (snd s) := (buffers (fst s) ! uniformBuffer (snd s))
             \<lparr>buffer_data := frame_matrix dateNow s\<rparr>],
        texture_views := texture_views (fst s) @ [Swap_chain_texture tex],
        command_encoders := Suc (command_encoders (fst s)),
        queue := queue (fst s) @
          [WriteBuffer (uniformBuffer (snd s)) 0 64,
           Submit [[RenderPass (frame_descriptor s)
                     [SetPipeline (pipeline (snd s)), SetBindGroup 0 (uniformBindGroup (snd s)),
                      SetVertexBuffer 0 (verticesBuffer (snd s)), Draw 36 1 0 0]]]]\<rparr>"
  using assms by (cases s) (simp add: frame_eq)

lemma reached_objects:
  "same_objects (fst (init mesh cv bm useWGSL h0)) (fst (run_frames ins (init mesh cv bm useWGSL h0)))"
  by (rule run_frames_same_objects)

lemma reached_pass_settings:
  "same_pass_settings (renderPassDescriptor (snd (init mesh cv bm useWGSL h0)))
     (renderPassDescriptor (snd (run_frames ins (init mesh cv bm useWGSL h0))))"
  by (rule run_frames_same_pass_settings)

lemma reached_validation_errors:
  "validation_errors (fst (run_frames ins (init mesh cv bm useWGSL h0))) = 0"
  using run_frames_validation_errors [OF init_ready, of ins mesh cv bm useWGSL h0]
  by (simp add: init_eq)

lemma reached_buffer_sizes:
  "map buffer_size (buffers (fst (run_frames ins (init mesh cv bm useWGSL h0)))) =
     [4 * length (cubeVertexArray mesh), 64]"
  using reached_objects [of mesh cv bm useWGSL h0 ins]
  by (simp add: same_objects_def init_eq)

lemma nth_of_map2: "map f xs = [a, b] \<Longrightarrow> f (xs ! 0) = a \<and> f (xs ! 1) = b"
  by (cases xs; cases "tl xs") auto

lemma reached_pipelines:
  "pipelines (fst (run_frames ins (init mesh cv bm useWGSL h0))) =
     pipelines (fst (init mesh cv bm useWGSL h0))"
  using reached_objects [of mesh cv bm useWGSL h0 ins] by (simp add: same_objects_def)

lemma reached_shader_modules:
  "shader_modules (fst (run_frames ins (init mesh cv bm useWGSL h0))) =
     shader_modules (fst (init mesh cv bm useWGSL h0))"
  using reached_objects [of mesh cv bm useWGSL h0 ins] by (simp add: same_objects_def)

lemma reached_pipeline:
  "pipeline (snd (run_frames ins (init mesh cv bm useWGSL h0))) = 0"
  using reached_handles [of mesh cv bm useWGSL h0 ins]
  by (simp add: same_handles_def init_eq)

lemma reached_verticesBuffer:
  "verticesBuffer (snd (run_frames ins (init mesh cv bm useWGSL h0))) = 0"
  using reached_handles [of mesh cv bm useWGSL h0 ins]
  by (simp add: same_handles_def init_eq)

lemma init_pipelines:
  "pipelines (fst (init mesh cv bm useWGSL h0)) =
     [\<lparr>pipeline_layout = 0, vertex_module = 0, vertex_entryPoint = ''main'',
       vertex_buffers =
         [\<lparr>arrayStride = cubeVertexSize mesh,
           attributes =
             [\<lparr>shaderLocation = 0, attribute_offset = cubePositionOffset mesh,
               attribute_format = Float32x4\<rparr>,
              \<lparr>shaderLocation = 1, attribute_offset = cubeUVOffset mesh,
               attribute_format = Float32x2\<rparr>]\<rparr>],
       fragment_module = 1, fragment_entryPoint = ''main'',
       fragment_targets = [Bgra8unorm], topology = Triangle_list,
       cullMode = Cull_back, depthWriteEnabled = True, depthCompare = Less,
       depthStencil_format = Depth24plus_stencil8\<rparr>]"
  by (simp add: init_eq)

lemma init_shader_modules:
  "shader_modules (fst (init mesh cv bm useWGSL h0)) =
     [\<lparr>module_lang = (if useWGSL then WGSL else GLSL), module_source = Vertex_stage,
       module_transform = (if useWGSL then None else Some Vertex_stage)\<rparr>,
      \<lparr>module_lang = (if useWGSL then WGSL else GLSL), module_source = Fragment_stage,
       module_transform = (if useWGSL then None else Some Fragment_stage)\<rparr>]"
  by (simp add: init_eq)

lemma init_renderPassDescriptor:
  "renderPassDescriptor (snd (init mesh cv bm useWGSL h0)) =
     \<lparr>colorAttachments =
        [\<lparr>color_attachment_view = None, loadValue = Clear_to (0.5, 0.5, 0.5, 1.0),
          color_storeOp = None\<rparr>],
      depthStencilAttachment =
        \<lparr>depth_attachment_view = 0, depthLoadValue = Clear_to 1.0,
         depthStoreOp = Store, stencilLoadValue = Clear_to 0,
         stencilStoreOp = Store\<rparr>\<rparr>"
  by (simp add: init_eq)

lemma reached_vertex_buffer_size:
  "buffer_size (buffers (fst (run_frames ins (init mesh cv bm useWGSL h0))) ! 0) =
     4 * length (cubeVertexArray mesh)"
  using nth_of_map2 [OF reached_buffer_sizes [of ins mesh cv bm useWGSL h0]] by simp

lemma reached_uniform_buffer_size:
  "buffer_size (buffers (fst (run_frames ins (init mesh cv bm useWGSL h0))) ! Suc 0) = 64"
  using nth_of_map2 [OF reached_buffer_sizes [of ins mesh cv bm useWGSL h0]] by simp

lemma reached_color_attachments:
  "length (colorAttachments (renderPassDescriptor (snd (run_frames ins (init mesh cv bm useWGSL h0))))) = 1"
  using reached_ready [of ins mesh cv bm useWGSL h0] by (simp add: ready_def)

lemma update_singleton: "length xs = 1 \<Longrightarrow> xs[0 := y] = [y]"
  by (cases xs) simp_all

lemma frame_returned_matrix:
  assumes "ready s"
  shows "(case getTransformationMatrix (projectionMatrix (snd s)) dateNow (heap (fst s)) of
            (a, h) \<Rightarrow> cells h a) = frame_matrix dateNow s"
  using assms by (simp add: ready_def getTransformationMatrix_eq frame_matrix_def)

lemma reached_vertex_main:
  "pipeline_vertex_main (run_frames ins (init mesh cv bm useWGSL h0)) =
     Some (if useWGSL then wgsl_vertex_main else glsl_vertex_main)"
  by (simp add: pipeline_vertex_main_def reached_pipeline reached_pipelines init_pipelines
      reached_shader_modules init_shader_modules vertex_stage_main_def)

lemma reached_fragment_main:
  "pipeline_fragment_main (run_frames ins (init mesh cv bm useWGSL h0)) =
     Some (if useWGSL then wgsl_fragment_main else glsl_fragment_main)"
  by (simp add: pipeline_fragment_main_def reached_pipeline reached_pipelines init_pipelines
      reached_shader_modules init_shader_modules fragment_stage_main_def)

lemma reached_uniformBindGroup:
  "uniformBindGroup (snd (run_frames ins (init mesh cv bm useWGSL h0))) = 0"
  using reached_handles [of mesh cv bm useWGSL h0 ins]
  by (simp add: same_handles_def init_eq)

lemma map1_nth: "map f xs = [a] \<Longrightarrow> f (xs ! 0) = a"
  by (cases xs) auto

lemma reached_loadValues:
  "map loadValue (colorAttachments (renderPassDescriptor (snd (run_frames ins (init mesh cv bm useWGSL h0)))))
     = [Clear_to (0.5, 0.5, 0.5, 1.0)]"
  using reached_pass_settings [of mesh cv bm useWGSL h0 ins]
  by (simp add: same_pass_settings_def init_renderPassDescriptor)

lemma reached_storeOps:
  "map color_storeOp (colorAttachments (renderPassDescriptor (snd (run_frames ins (init mesh cv bm useWGSL h0)))))
     = [None]"
  using reached_pass_settings [of mesh cv bm useWGSL h0 ins]
  by (simp add: same_pass_settings_def init_renderPassDescriptor)

lemma reached_depthStencilAttachment:
  "depthStencilAttachment (renderPassDescriptor (snd (run_frames ins (init mesh cv bm useWGSL h0))))
     = \<lparr>depth_attachment_view = 0, depthLoadValue = Clear_to 1.0,
         depthStoreOp = Store, stencilLoadValue = Clear_to 0, stencilStoreOp = Store\<rparr>"
  using reached_pass_settings [of mesh cv bm useWGSL h0 ins]
  by (simp add: same_pass_settings_def init_renderPassDescriptor)

lemma frame_descriptor_attachments:
  assumes "length (colorAttachments (renderPassDescriptor (snd s))) = 1"
  shows "colorAttachments (frame_descriptor s) =
           [(colorAttachments (renderPassDescriptor (snd s)) ! 0)
              \<lparr>color_attachment_view := Some (length (texture_views (fst s)))\<rparr>]"
  using assms by (simp add: frame_descriptor_def update_singleton)

lemma reached_frame_matrix:
  "frame_matrix dateNow (run_frames ins (init mesh cv bm useWGSL h0)) =
     mat4_product
       (perspective_values (2 * pi / 5) \<bar>real (canvas_width cv) / real (canvas_height cv)\<bar> 1 100)
       (view_matrix (real_of_int dateNow / 1000))"
  by (simp add: frame_matrix_def reached_projectionMatrix reached_projection)

lemma frame_reached_uniformBuffer:
  "uniformBuffer (snd (frame dateNow tex (run_frames ins (init mesh cv bm useWGSL h0)))) = 1"
  by (simp add: snd_frame reached_uniformBuffer)

lemma init_created:
  "map buffer_usage (buffers (fst (init mesh cv bm useWGSL h0))) =
     [{VERTEX}, {UNIFORM, COPY_DST_BUFFER}] \<and>
   map texture_format (textures (fst (init mesh cv bm useWGSL h0))) =
     [Depth24plus_stencil8, Rgba8unorm] \<and>
   length (samplers (fst (init mesh cv bm useWGSL h0))) = 1 \<and>
   length (pipelines (fst (init mesh cv bm useWGSL h0))) = 1 \<and>
   length (bind_groups (fst (init mesh cv bm useWGSL h0))) = 1"
  by (simp add: init_eq)

lemma init_handles:
  "verticesBuffer (snd (init mesh cv bm useWGSL h0)) = 0 \<and>
   uniformBuffer (snd (init mesh cv bm useWGSL h0)) = 1 \<and>
   depthTexture (snd (init mesh cv bm useWGSL h0)) = 0 \<and>
   cubeTexture (snd (init mesh cv bm useWGSL h0)) = 1 \<and>
   sampler (snd (init mesh cv bm useWGSL h0)) = 0 \<and>
   pipeline (snd (init mesh cv bm useWGSL h0)) = 0 \<and>
   uniformBindGroup (snd (init mesh cv bm useWGSL h0)) = 0"
  by (simp add: init_eq)

section \<open>The properties\<close>

text \<open>
  C1. After every call of \<^verbatim>\<open>frame\<close> the uniform buffer holds the product of the
  projection matrix and the view matrix of the clock reading \<open>t = Date.now() / 1000\<close>.
  The view matrix is what \<^verbatim>\<open>mat4.translate\<close> by \<open>(0, 0, -4)\<close> and then \<^verbatim>\<open>mat4.rotate\<close> by
  1 radian about \<open>(sin t, cos t, 0)\<close> make of the identity, which is the product of that
  translation and that rotation. At \<open>t = 0\<close> the axis is \<open>(0, 1, 0)\<close>: the buffer holds
  projection times translation times the rotation by 1 radian about Y.
\<close>

theorem frame_writes_projection_times_view:
  "let s = run_frames ins (init mesh cv bm useWGSL h0);
       s' = frame dateNow tex s;
       s0 = frame 0 tex s;
       t = real_of_int dateNow / 1000;
       projection = cells (heap (fst s)) (projectionMatrix (snd s))
   in buffer_data (buffers (fst s') ! uniformBuffer (snd s')) =
        mat4_product projection (view_matrix t) \<and>
      rotate_values (translate_values mat4_identity (vec3_fromValues 0 0 (- 4))) 1
        (vec3_fromValues (sin t) (cos t) 0) = Some (view_matrix t) \<and>
      view_matrix t =
        mat4_product (translation_matrix (0, 0, - 4)) (rotation_matrix 1 (sin t, cos t, 0)) \<and>
      buffer_data (buffers (fst s0) ! uniformBuffer (snd s0)) =
        mat4_product projection
          (mat4_product (translation_matrix (0, 0, - 4)) (rotation_matrix 1 (0, 1, 0)))"
proof -
  let ?s = "run_frames ins (init mesh cv bm useWGSL h0)"
  have r: "ready ?s" by (rule reached_ready)
  have v0: "view_matrix 0 =
      mat4_product (translation_matrix (0, 0, - 4)) (rotation_matrix 1 (0, 1, 0))"
    by (simp add: view_matrix_def)
  show ?thesis
    unfolding Let_def
    using frame_uniform_data [OF r, of dateNow tex] frame_uniform_data [OF r, of 0 tex] v0
    by (simp add: frame_matrix_def view_values) (simp add: view_matrix_def)
qed

text \<open>
  C2. With the cube mesh as the spec describes it (36 vertices of a four-float position and
  a two-float UV), the vertex buffer has the byte length of the vertex array, which is 36
  strides of 24 bytes, 864 bytes; and the one vertex buffer layout of the pipeline has
  that stride, the position at offset 0 and the UV right after the position.
\<close>

theorem vertex_buffer_layout_matches_mesh:
  assumes "spec_cube_mesh mesh"
  shows "let s = run_frames ins (init mesh cv bm useWGSL h0);
             vb = buffers (fst s) ! verticesBuffer (snd s);
             layouts = vertex_buffers (pipelines (fst s) ! pipeline (snd s))
         in buffer_size vb = byteLength (cubeVertexArray mesh) \<and>
            buffer_size vb = 36 * cubeVertexSize mesh \<and>
            cubeVertexSize mesh = vertex_format_size Float32x4 + vertex_format_size Float32x2 \<and>
            cubeVertexSize mesh = 24 \<and>
            buffer_size vb = 864 \<and>
            layouts =
              [\<lparr>arrayStride = 24,
                attributes =
                  [\<lparr>shaderLocation = 0, attribute_offset = 0, attribute_format = Float32x4\<rparr>,
                   \<lparr>shaderLocation = 1, attribute_offset = vertex_format_size Float32x4,
                    attribute_format = Float32x2\<rparr>]\<rparr>]"
  unfolding Let_def
  using assms
  by (simp add: reached_verticesBuffer reached_pipeline reached_pipelines init_pipelines
      reached_vertex_buffer_size spec_cube_mesh_def byteLength_def vertex_format_size_def)

theorem vertex_buffer_layout_matches_mesh_witness:
  "spec_cube_mesh \<lparr>cubeVertexArray = replicate 216 0, cubeVertexSize = 24, cubeUVOffset = 16,
      cubePositionOffset = 0\<rparr> \<and>
   buffer_size
     (buffers (fst (init \<lparr>cubeVertexArray = replicate 216 0, cubeVertexSize = 24,
                           cubeUVOffset = 16, cubePositionOffset = 0\<rparr>
                      \<lparr>canvas_width = 600, canvas_height = 600\<rparr>
                      \<lparr>bitmap_width = 512, bitmap_height = 512\<rparr> True
                      \<lparr>cells = (\<lambda>a. []), next_addr = 0\<rparr>)) ! 0) = 864"
proof -
  have m: "spec_cube_mesh \<lparr>cubeVertexArray = replicate 216 0, cubeVertexSize = 24,
      cubeUVOffset = 16, cubePositionOffset = 0\<rparr>"
    by (simp add: spec_cube_mesh_def)
  show ?thesis
    using m vertex_buffer_layout_matches_mesh [OF m, of "[]"
        "\<lparr>canvas_width = 600, canvas_height = 600\<rparr>"
        "\<lparr>bitmap_width = 512, bitmap_height = 512\<rparr>" True
        "\<lparr>cells = (\<lambda>a. []), next_addr = 0\<rparr>"]
    by (simp add: Let_def init_eq)
qed

text \<open>
  C3. The uniform buffer has 64 bytes, at \<^verbatim>\<open>init\<close> and ever after. Every call of
  \<^verbatim>\<open>frame\<close> writes it once, from buffer offset 0 and for the byte length of the matrix
  \<^verbatim>\<open>getTransformationMatrix\<close> returned, which is 64; the write is accepted, and after it
  the buffer holds that matrix and nothing else.
\<close>

theorem uniform_buffer_fully_overwritten:
  "let s = run_frames ins (init mesh cv bm useWGSL h0);
       s' = frame dateNow tex s;
       ub = uniformBuffer (snd s);
       transformationMatrix =
         (case getTransformationMatrix (projectionMatrix (snd s)) dateNow (heap (fst s)) of
            (a, h) \<Rightarrow> cells h a)
   in buffer_size (buffers (fst s) ! ub) = 64 \<and>
      buffer_size (buffers (fst s') ! ub) = 64 \<and>
      byteLength transformationMatrix = 64 \<and>
      (\<exists>cbs. queue (fst s') =
         queue (fst s) @ [WriteBuffer ub 0 (byteLength transformationMatrix), Submit cbs]) \<and>
      buffer_data (buffers (fst s') ! ub) = transformationMatrix \<and>
      validation_errors (fst s') = 0"
proof -
  let ?s = "run_frames ins (init mesh cv bm useWGSL h0)"
  have r: "ready ?s" by (rule reached_ready)
  have u: "Suc 0 < length (buffers (fst ?s))"
    using r by (simp add: ready_def reached_uniformBuffer)
  show ?thesis
    unfolding Let_def frame_returned_matrix [OF r]
    using frame_uniform_data [OF r, of dateNow tex] frame_validation_errors [OF r, of dateNow tex] u
    by (simp add: reached_uniformBuffer reached_uniform_buffer_size reached_validation_errors
        frame_matrix_def byteLength_def length_mat4_product fst_frame [OF r] snd_frame)
qed

text \<open>
  C4. Whichever dialect \<^verbatim>\<open>init\<close> was asked for, the vertex stage of the pipeline maps a
  position and a UV to the clip-space position \<open>modelViewProjectionMatrix \<times> position\<close>
  (each component the sum of a row of the column-major matrix times the position), the
  same UV, and the pseudo-colour \<open>0.5 * (position + 1)\<close> in each component; the fragment
  stage returns the sampled texel times the pseudo-colour it is given, component by
  component.
\<close>

theorem shaders_transform_and_tint:
  "let s = run_frames ins (init mesh cv bm useWGSL h0)
   in (case pipeline_vertex_main s of
         None \<Rightarrow> False
       | Some vertex_main \<Rightarrow>
           vertex_main m (x, y, z, w) uv =
             \<lparr>Position =
                (m ! 0 * x + m ! 4 * y + m ! 8 * z + m ! 12 * w,
                 m ! 1 * x + m ! 5 * y + m ! 9 * z + m ! 13 * w,
                 m ! 2 * x + m ! 6 * y + m ! 10 * z + m ! 14 * w,
                 m ! 3 * x + m ! 7 * y + m ! 11 * z + m ! 15 * w),
              fragUV = uv,
              fragPosition = (0.5 * (x + 1), 0.5 * (y + 1), 0.5 * (z + 1), 0.5 * (w + 1))\<rparr>) \<and>
      (case pipeline_fragment_main s of
         None \<Rightarrow> False
       | Some fragment_main \<Rightarrow>
           fragment_main textureSample myTexture mySampler uv (r, g, b, a) =
             (case textureSample myTexture mySampler uv of
                (tr, tg, tb, ta) \<Rightarrow> (tr * r, tg * g, tb * b, ta * a)))"
  unfolding Let_def reached_vertex_main reached_fragment_main
  by (cases "textureSample myTexture mySampler uv")
    (simp add: glsl_vertex_main_def wgsl_vertex_main_def glsl_fragment_main_def
      wgsl_fragment_main_def vec4_scale_def vec4_add_def vec4_splat_def vec4_mul_def
      mat4_times_vec4_def)

text \<open>
  C5. The pipeline built with \<^verbatim>\<open>useWGSL = false\<close> and the one built with
  \<^verbatim>\<open>useWGSL = true\<close> compute the same vertex outputs from the same matrix, position and
  UV, and the same fragment colour from the same texture, sampler, UV and pseudo-colour.
\<close>

theorem shader_dialects_agree:
  "let glsl = run_frames ins1 (init mesh1 cv1 bm1 False h1);
       wgsl = run_frames ins2 (init mesh2 cv2 bm2 True h2)
   in (case (pipeline_vertex_main glsl, pipeline_vertex_main wgsl) of
         (Some glsl_main, Some wgsl_main) \<Rightarrow> glsl_main m position uv = wgsl_main m position uv
       | _ \<Rightarrow> False) \<and>
      (case (pipeline_fragment_main glsl, pipeline_fragment_main wgsl) of
         (Some glsl_main, Some wgsl_main) \<Rightarrow>
           glsl_main textureSample myTexture mySampler uv fragPosition0 =
           wgsl_main textureSample myTexture mySampler uv fragPosition0
       | _ \<Rightarrow> False)"
  unfolding Let_def reached_vertex_main reached_fragment_main
  by (simp add: glsl_vertex_main_def wgsl_vertex_main_def glsl_fragment_main_def
      wgsl_fragment_main_def vec4_splat_def)

text \<open>
  C6. On a canvas of positive width and height the projection matrix is, after \<^verbatim>\<open>init\<close>
  and after any number of calls of \<^verbatim>\<open>frame\<close>, the perspective matrix of
  \<^verbatim>\<open>mat4.perspective\<close> for the aspect ratio width / height, near plane 1 and far plane
  100. Its sixteen numbers are given: with \<open>f = 1 / tan (pi / 5)\<close> the first is
  \<open>f / aspect\<close>, the sixth \<open>f\<close>, and the third column holds the two planes. The depth and
  the fourth component it gives a point at distance 1 are \<open>-1\<close> and \<open>1\<close>, and at
  distance 100 they are \<open>100\<close> and \<open>100\<close>: depth \<open>-1\<close> and \<open>1\<close> after the division.
\<close>

theorem projection_is_perspective:
  assumes "0 < canvas_width cv" and "0 < canvas_height cv"
  shows "let s = run_frames ins (init mesh cv bm useWGSL h0);
             projection = cells (heap (fst s)) (projectionMatrix (snd s));
             aspect = real (canvas_width cv) / real (canvas_height cv);
             f = 1 / tan (pi / 5)
         in projection = perspective_values (2 * pi / 5) aspect 1 100 \<and>
            projection =
              [f / aspect, 0, 0, 0,
               0, f, 0, 0,
               0, 0, (100 + 1) / (1 - 100), - 1,
               0, 0, 2 * 100 * 1 / (1 - 100), 0] \<and>
            projection ! 10 * (- 1) + projection ! 14 = - 1 \<and>
            projection ! 11 * (- 1) + projection ! 15 = 1 \<and>
            projection ! 10 * (- 100) + projection ! 14 = 100 \<and>
            projection ! 11 * (- 100) + projection ! 15 = 100"
  unfolding Let_def reached_projectionMatrix reached_projection
  by (simp add: perspective_values_def Let_def)

theorem projection_is_perspective_witness:
  "0 < canvas_width \<lparr>canvas_width = 4, canvas_height = 3\<rparr> \<and>
   0 < canvas_height \<lparr>canvas_width = 4, canvas_height = 3\<rparr> \<and>
   cells (heap (fst (init \<lparr>cubeVertexArray = [], cubeVertexSize = 24, cubeUVOffset = 16,
                            cubePositionOffset = 0\<rparr>
                       \<lparr>canvas_width = 4, canvas_height = 3\<rparr>
                       \<lparr>bitmap_width = 512, bitmap_height = 512\<rparr> False
                       \<lparr>cells = (\<lambda>a. []), next_addr = 0\<rparr>))) 0 =
     [1 / tan (pi / 5) / (4 / 3), 0, 0, 0,
      0, 1 / tan (pi / 5), 0, 0,
      0, 0, - (101 / 99), - 1,
      0, 0, - (200 / 99), 0]"
  using projection_is_perspective [of "\<lparr>canvas_width = 4, canvas_height = 3\<rparr>" "[]"
      "\<lparr>cubeVertexArray = [], cubeVertexSize = 24, cubeUVOffset = 16, cubePositionOffset = 0\<rparr>"
      "\<lparr>bitmap_width = 512, bitmap_height = 512\<rparr>" False
      "\<lparr>cells = (\<lambda>a. []), next_addr = 0\<rparr>"]
  by (simp add: Let_def init_eq)

text \<open>
  C7. Every call of \<^verbatim>\<open>frame\<close> submits one command buffer with one render pass, whose
  commands are: set the pipeline, set the one bind group at index 0, set the vertex
  buffer at slot 0, draw 36 vertices and 1 instance from vertex 0, with no index buffer
  and no indexed draw. The pass renders to the view of the current swap-chain image,
  clears colour to \<open>(0.5, 0.5, 0.5, 1)\<close>, depth to 1 and stencil to 0, and stores colour
  (the default of the API, the descriptor naming no store operation), depth and stencil.
  The pipeline culls back faces, draws a triangle list, compares depth with "less" and
  writes depth.
\<close>

theorem frame_records_one_pass:
  "let s = run_frames ins (init mesh cv bm useWGSL h0);
       s' = frame dateNow tex s;
       d = renderPassDescriptor (snd s');
       p = pipelines (fst s') ! pipeline (snd s')
   in queue (fst s') = queue (fst s) @
        [WriteBuffer (uniformBuffer (snd s)) 0 64,
         Submit [[RenderPass d
                   [SetPipeline (pipeline (snd s)), SetBindGroup 0 (uniformBindGroup (snd s)),
                    SetVertexBuffer 0 (verticesBuffer (snd s)), Draw 36 1 0 0]]]] \<and>
      length (bind_groups (fst s)) = 1 \<and>
      map color_attachment_view (colorAttachments d) = [Some (length (texture_views (fst s)))] \<and>
      texture_views (fst s') ! length (texture_views (fst s)) = Swap_chain_texture tex \<and>
      map loadValue (colorAttachments d) = [Clear_to (0.5, 0.5, 0.5, 1.0)] \<and>
      map (\<lambda>a. effective_storeOp (color_storeOp a)) (colorAttachments d) = [Store] \<and>
      depthLoadValue (depthStencilAttachment d) = Clear_to 1.0 \<and>
      stencilLoadValue (depthStencilAttachment d) = Clear_to 0 \<and>
      depthStoreOp (depthStencilAttachment d) = Store \<and>
      stencilStoreOp (depthStencilAttachment d) = Store \<and>
      cullMode p = Cull_back \<and>
      topology p = Triangle_list \<and>
      depthCompare p = Less \<and>
      depthWriteEnabled p"
proof -
  let ?s = "run_frames ins (init mesh cv bm useWGSL h0)"
  have r: "ready ?s" by (rule reached_ready)
  have l: "length (colorAttachments (renderPassDescriptor (snd ?s))) = 1"
    by (rule reached_color_attachments)
  have bg: "length (bind_groups (fst ?s)) = 1"
    using reached_objects [of mesh cv bm useWGSL h0 ins] by (simp add: same_objects_def init_eq)
  have lv: "loadValue (colorAttachments (renderPassDescriptor (snd ?s)) ! 0) = Clear_to (0.5, 0.5, 0.5, 1.0)"
    by (rule map1_nth [OF reached_loadValues])
  have so: "color_storeOp (colorAttachments (renderPassDescriptor (snd ?s)) ! 0) = None"
    by (rule map1_nth [OF reached_storeOps])
  have ds: "depthStencilAttachment (frame_descriptor ?s) =
      \<lparr>depth_attachment_view = 0, depthLoadValue = Clear_to 1.0,
         depthStoreOp = Store, stencilLoadValue = Clear_to 0, stencilStoreOp = Store\<rparr>"
    by (simp add: frame_descriptor_def reached_depthStencilAttachment)
  show ?thesis
    unfolding Let_def
    using bg lv so
    by (simp add: fst_frame [OF r] snd_frame frame_descriptor_attachments [OF l] ds
        reached_pipeline reached_pipelines init_pipelines effective_storeOp_def)
qed

text \<open>
  C8. The matrix a call of \<^verbatim>\<open>frame\<close> writes depends on the clock reading and on the aspect
  ratio of the canvas only. Take two runs that may differ in everything else (the mesh,
  the image, the dialect, the heap \<^verbatim>\<open>init\<close> started from, the size of the canvas, the
  calls of \<^verbatim>\<open>frame\<close> made before, the swap-chain image): if the canvases have positive
  widths and heights and the same aspect ratio, and the clock readings are the same time
  \<open>t\<close>, the two
  calls write the same sixteen numbers, which are a function of the ratio and \<open>t\<close>.
\<close>

theorem transformation_matrix_deterministic:
  assumes "0 < canvas_width cv1" and "0 < canvas_height cv1"
    and "0 < canvas_width cv2" and "0 < canvas_height cv2"
    and "real (canvas_width cv1) / real (canvas_height cv1) =
         real (canvas_width cv2) / real (canvas_height cv2)"
    and "real_of_int now1 / 1000 = real_of_int now2 / 1000"
  shows "let s1 = frame now1 tex1 (run_frames ins1 (init mesh1 cv1 bm1 flag1 h1));
             s2 = frame now2 tex2 (run_frames ins2 (init mesh2 cv2 bm2 flag2 h2))
         in buffer_data (buffers (fst s1) ! uniformBuffer (snd s1)) =
            buffer_data (buffers (fst s2) ! uniformBuffer (snd s2)) \<and>
            buffer_data (buffers (fst s1) ! uniformBuffer (snd s1)) =
              mat4_product
                (perspective_values (2 * pi / 5)
                   (real (canvas_width cv1) / real (canvas_height cv1)) 1 100)
                (view_matrix (real_of_int now1 / 1000)) \<and>
            buffer_data (buffers (fst s1) ! uniformBuffer (snd s1)) =
              mat4_product
                [1 / tan (pi / 5) / (real (canvas_width cv1) / real (canvas_height cv1)),
                 0, 0, 0,
                 0, 1 / tan (pi / 5), 0, 0,
                 0, 0, (100 + 1) / (1 - 100), - 1,
                 0, 0, 2 * 100 * 1 / (1 - 100), 0]
                (view_matrix (real_of_int now1 / 1000))"
proof -
  have p: "perspective_values (2 * pi / 5)
        (real (canvas_width cv1) / real (canvas_height cv1)) 1 100 =
      [1 / tan (pi / 5) / (real (canvas_width cv1) / real (canvas_height cv1)),
       0, 0, 0,
       0, 1 / tan (pi / 5), 0, 0,
       0, 0, (100 + 1) / (1 - 100), - 1,
       0, 0, 2 * 100 * 1 / (1 - 100), 0]"
    by (simp add: perspective_values_def Let_def)
  have q: "frame_matrix now1 (run_frames ins1 (init mesh1 cv1 bm1 flag1 h1)) =
      mat4_product
        (perspective_values (2 * pi / 5)
           (real (canvas_width cv1) / real (canvas_height cv1)) 1 100)
        (view_matrix (real_of_int now1 / 1000))"
    by (simp add: reached_frame_matrix)
  have e: "frame_matrix now2 (run_frames ins2 (init mesh2 cv2 bm2 flag2 h2)) =
      frame_matrix now1 (run_frames ins1 (init mesh1 cv1 bm1 flag1 h1))"
    using assms by (simp add: reached_frame_matrix)
  show ?thesis
    unfolding Let_def frame_uniform_data [OF reached_ready] e
    using q p by simp
qed

theorem transformation_matrix_deterministic_witness:
  "0 < canvas_width \<lparr>canvas_width = 4, canvas_height = 2\<rparr> \<and>
   0 < canvas_height \<lparr>canvas_width = 4, canvas_height = 2\<rparr> \<and>
   0 < canvas_width \<lparr>canvas_width = 2, canvas_height = 1\<rparr> \<and>
   0 < canvas_height \<lparr>canvas_width = 2, canvas_height = 1\<rparr> \<and>
   real (canvas_width \<lparr>canvas_width = 4, canvas_height = 2\<rparr>) /
     real (canvas_height \<lparr>canvas_width = 4, canvas_height = 2\<rparr>) =
   real (canvas_width \<lparr>canvas_width = 2, canvas_height = 1\<rparr>) /
     real (canvas_height \<lparr>canvas_width = 2, canvas_height = 1\<rparr>) \<and>
   real_of_int 5000 / 1000 = real_of_int 5000 / 1000 \<and>
   buffer_data
     (buffers (fst (frame 5000 0
        (run_frames []
          (init \<lparr>cubeVertexArray = [], cubeVertexSize = 24, cubeUVOffset = 16,
                  cubePositionOffset = 0\<rparr>
             \<lparr>canvas_width = 4, canvas_height = 2\<rparr>
             \<lparr>bitmap_width = 512, bitmap_height = 512\<rparr> False
             \<lparr>cells = (\<lambda>a. []), next_addr = 0\<rparr>)))) ! 1) =
   buffer_data
     (buffers (fst (frame 5000 7
        (run_frames [(0, 3)]
          (init \<lparr>cubeVertexArray = [1], cubeVertexSize = 24, cubeUVOffset = 16,
                  cubePositionOffset = 0\<rparr>
             \<lparr>canvas_width = 2, canvas_height = 1\<rparr>
             \<lparr>bitmap_width = 64, bitmap_height = 64\<rparr> True
             \<lparr>cells = (\<lambda>a. [0]), next_addr = 5\<rparr>)))) ! 1)"
proof -
  have a: "0 < canvas_height \<lparr>canvas_width = 4, canvas_height = 2\<rparr>" by simp
  have b: "0 < canvas_height \<lparr>canvas_width = 2, canvas_height = 1\<rparr>" by simp
  have a': "0 < canvas_width \<lparr>canvas_width = 4, canvas_height = 2\<rparr>" by simp
  have b': "0 < canvas_width \<lparr>canvas_width = 2, canvas_height = 1\<rparr>" by simp
  have c: "real (canvas_width \<lparr>canvas_width = 4, canvas_height = 2\<rparr>) /
     real (canvas_height \<lparr>canvas_width = 4, canvas_height = 2\<rparr>) =
   real (canvas_width \<lparr>canvas_width = 2, canvas_height = 1\<rparr>) /
     real (canvas_height \<lparr>canvas_width = 2, canvas_height = 1\<rparr>)" by simp
  have d: "real_of_int 5000 / 1000 = real_of_int 5000 / 1000" by simp
  show ?thesis
    using transformation_matrix_deterministic [OF a' a b' b c d, of 0 "[]"
        "\<lparr>cubeVertexArray = [], cubeVertexSize = 24, cubeUVOffset = 16, cubePositionOffset = 0\<rparr>"
        "\<lparr>bitmap_width = 512, bitmap_height = 512\<rparr>" False
        "\<lparr>cells = (\<lambda>a. []), next_addr = 0\<rparr>" 7 "[(0, 3)]"
        "\<lparr>cubeVertexArray = [1], cubeVertexSize = 24, cubeUVOffset = 16, cubePositionOffset = 0\<rparr>"
        "\<lparr>bitmap_width = 64, bitmap_height = 64\<rparr>" True
        "\<lparr>cells = (\<lambda>a. [0]), next_addr = 5\<rparr>"]
    unfolding Let_def frame_reached_uniformBuffer by simp
qed

text \<open>
  C9. \<^verbatim>\<open>init\<close> starts from a device that has created nothing and creates two buffers (the
  vertex buffer and the uniform buffer), two textures (depth and colour), one sampler, one
  pipeline and one bind group. No call of \<^verbatim>\<open>frame\<close> adds to, removes from or changes these
  tables, the sizes and usages of the buffers included, and the renderer keeps the same
  handles: a call uses the objects \<^verbatim>\<open>init\<close> made. What a call makes is one view, of the
  swap-chain image, and one command encoder; the one thing it writes in an object is the
  data of the uniform buffer.
\<close>

theorem objects_created_once_and_kept:
  "let s0 = init mesh cv bm useWGSL h0;
       s = run_frames ins s0;
       s' = frame dateNow tex s
   in map buffer_usage (buffers (fst s0)) = [{VERTEX}, {UNIFORM, COPY_DST_BUFFER}] \<and>
      map texture_format (textures (fst s0)) = [Depth24plus_stencil8, Rgba8unorm] \<and>
      length (samplers (fst s0)) = 1 \<and>
      length (pipelines (fst s0)) = 1 \<and>
      length (bind_groups (fst s0)) = 1 \<and>
      verticesBuffer (snd s0) = 0 \<and> uniformBuffer (snd s0) = 1 \<and>
      depthTexture (snd s0) = 0 \<and> cubeTexture (snd s0) = 1 \<and>
      sampler (snd s0) = 0 \<and> pipeline (snd s0) = 0 \<and> uniformBindGroup (snd s0) = 0 \<and>
      same_objects (fst s0) (fst s) \<and> same_handles (snd s0) (snd s) \<and>
      same_objects (fst s) (fst s') \<and> same_handles (snd s) (snd s') \<and>
      buffers (fst s') =
        (buffers (fst s))
          [uniformBuffer (snd s) :=
             (buffers (fst s) ! uniformBuffer (snd s))\<lparr>buffer_data := frame_matrix dateNow s\<rparr>] \<and>
      texture_views (fst s') = texture_views (fst s) @ [Swap_chain_texture tex] \<and>
      command_encoders (fst s') = Suc (command_encoders (fst s))"
proof -
  let ?s = "run_frames ins (init mesh cv bm useWGSL h0)"
  have r: "ready ?s" by (rule reached_ready)
  show ?thesis
    unfolding Let_def
    using init_created [of mesh cv bm useWGSL h0] init_handles [of mesh cv bm useWGSL h0]
      reached_objects [of mesh cv bm useWGSL h0 ins] reached_handles [of mesh cv bm useWGSL h0 ins]
      frame_same_objects [of ?s dateNow tex] frame_same_handles [of ?s dateNow tex]
    by (simp add: fst_frame [OF r])
qed

text \<open>
  C10. Of the variables \<^verbatim>\<open>frame\<close> captures, a call changes only the view of the first
  colour attachment of \<^verbatim>\<open>renderPassDescriptor\<close>, which becomes the view of the current
  swap-chain image. The depth-stencil attachment, the load values and store operations
  stay as they are. On the heap the call writes two arrays, both at addresses that were
  not allocated before it, so the projection matrix, which was, keeps its contents.
\<close>

theorem frame_mutates_only_color_attachment:
  "let s = run_frames ins (init mesh cv bm useWGSL h0);
       s' = frame dateNow tex s;
       d = renderPassDescriptor (snd s);
       view = length (texture_views (fst s));
       fresh = next_addr (heap (fst s))
   in snd s' =
        (snd s)\<lparr>renderPassDescriptor :=
          d\<lparr>colorAttachments := [(colorAttachments d ! 0)\<lparr>color_attachment_view := Some view\<rparr>]\<rparr>\<rparr> \<and>
      texture_views (fst s') ! view = Swap_chain_texture tex \<and>
      depthStencilAttachment (renderPassDescriptor (snd s')) = depthStencilAttachment d \<and>
      map loadValue (colorAttachments (renderPassDescriptor (snd s'))) =
        map loadValue (colorAttachments d) \<and>
      map color_storeOp (colorAttachments (renderPassDescriptor (snd s'))) =
        map color_storeOp (colorAttachments d) \<and>
      projectionMatrix (snd s) < fresh \<and>
      heap (fst s') =
        (heap (fst s))
          \<lparr>cells := (cells (heap (fst s)))
             (fresh := view_matrix (real_of_int dateNow / 1000),
              Suc fresh := frame_matrix dateNow s),
           next_addr := Suc (Suc fresh)\<rparr> \<and>
      cells (heap (fst s')) (projectionMatrix (snd s')) =
        cells (heap (fst s)) (projectionMatrix (snd s))"
proof -
  let ?s = "run_frames ins (init mesh cv bm useWGSL h0)"
  have r: "ready ?s" by (rule reached_ready)
  have p: "projectionMatrix (snd ?s) < next_addr (heap (fst ?s))"
    using r by (simp add: ready_def)
  have l: "length (colorAttachments (renderPassDescriptor (snd ?s))) = 1"
    by (rule reached_color_attachments)
  have d: "frame_descriptor ?s =
      (renderPassDescriptor (snd ?s))
        \<lparr>colorAttachments :=
           [(colorAttachments (renderPassDescriptor (snd ?s)) ! 0)
              \<lparr>color_attachment_view := Some (length (texture_views (fst ?s)))\<rparr>]\<rparr>"
    using l by (simp add: frame_descriptor_def update_singleton)
  have k: "colorAttachments (renderPassDescriptor (snd ?s)) =
      [colorAttachments (renderPassDescriptor (snd ?s)) ! 0]"
    using l by (cases "colorAttachments (renderPassDescriptor (snd ?s))") simp_all
  have m1: "map loadValue (colorAttachments (renderPassDescriptor (snd ?s))) =
      [loadValue (colorAttachments (renderPassDescriptor (snd ?s)) ! 0)]"
    by (subst k) simp
  have m2: "map color_storeOp (colorAttachments (renderPassDescriptor (snd ?s))) =
      [color_storeOp (colorAttachments (renderPassDescriptor (snd ?s)) ! 0)]"
    by (subst k) simp
  show ?thesis
    unfolding Let_def
    using p
    by (simp add: snd_frame d fst_frame [OF r] getTransformationMatrix_eq [OF p]
        frame_matrix_def m1 m2)
qed

end
